theory Spec2Isabelle
  imports Main "HOL-Library.Monad_Syntax" "HOL-Library.Sublist"
begin

section \<open>JavaScript strings\<close>

text \<open>
  A JavaScript string is a sequence of UTF-16 code units and \<open>s.length\<close> counts them.
  The model keeps a string as the list of its code units, so that \<open>length\<close> is
  \<open>.length\<close> also on the non-ASCII markers the services append. An ASCII literal of the
  source is written \<open>lit ''...''\<close>.
\<close>

type_synonym jsstring = "nat list"

abbreviation (input) lit :: "string \<Rightarrow> jsstring" where
  "lit s \<equiv> map of_char s"

text \<open>\<open>s.startsWith(p)\<close>.\<close>

definition startsWith :: "jsstring \<Rightarrow> jsstring \<Rightarrow> bool" where
  "startsWith s p \<longleftrightarrow> take (length p) s = p"

text \<open>
  \<open>s.split(sep)\<close> for a separator of one code unit: the pieces between separators; the
  empty string gives one empty piece. \<open>splitLines\<close> is \<open>s.split('\n')\<close>.
\<close>

fun splitAcc :: "nat \<Rightarrow> jsstring \<Rightarrow> jsstring \<Rightarrow> jsstring list" where
  "splitAcc sep cur [] = [rev cur]"
| "splitAcc sep cur (c # cs) =
     (if c = sep then rev cur # splitAcc sep [] cs else splitAcc sep (c # cur) cs)"

definition splitLines :: "jsstring \<Rightarrow> jsstring list" where
  "splitLines s = splitAcc 10 [] s"

text \<open>\<open>xs.join('\n')\<close>.\<close>

fun joinLines :: "jsstring list \<Rightarrow> jsstring" where
  "joinLines [] = []"
| "joinLines [l] = l"
| "joinLines (l # m # ls) = l @ 10 # joinLines (m # ls)"

text \<open>
  The regular expression class \<open>\d\<close> (ASCII digits) and \<open>parseInt(ds, 10)\<close> on a run of
  digits. The model computes the number exactly, as JavaScript does below \<open>2^53\<close>.
\<close>

definition isDigit :: "nat \<Rightarrow> bool" where
  "isDigit c \<longleftrightarrow> 48 \<le> c \<and> c \<le> 57"

fun parseDigits :: "int \<Rightarrow> jsstring \<Rightarrow> int" where
  "parseDigits acc [] = acc"
| "parseDigits acc (c # cs) = parseDigits (acc * 10 + (int c - 48)) cs"

definition parseInt10 :: "jsstring \<Rightarrow> int" where
  "parseInt10 ds = parseDigits 0 ds"

text \<open>\<open>s.includes(p)\<close>, here \<open>includesStr\<close>: \<open>p\<close> occurs somewhere in \<open>s\<close>.\<close>

fun includesStr :: "jsstring \<Rightarrow> jsstring \<Rightarrow> bool" where
  "includesStr [] p = (p = [])"
| "includesStr (c # cs) p = (startsWith (c # cs) p \<or> includesStr cs p)"

text \<open>A number inside a template literal: its decimal digits, after a minus sign if negative.\<close>

fun showNat :: "nat \<Rightarrow> jsstring" where
  "showNat n = (if n < 10 then [48 + n] else showNat (n div 10) @ [48 + n mod 10])"

declare showNat.simps [simp del]

definition showInt :: "int \<Rightarrow> jsstring" where
  "showInt i = (if i < 0 then 45 # showNat (nat (- i)) else showNat (nat i))"

section \<open>Errors\<close>

text \<open>
  What the code throws and catches is an \<open>Error\<close> object, of which it reads the message
  only. The two messages the service builds itself are that of the depth limiter ("AST
  traversal depth exceeded (\<open>d\<close> > \<open>m\<close>)", in Chinese) and that of the timeout ("AST parse
  timed out (>\<open>ms\<close>ms)"); the words by which a depth error is recognised in the \<open>catch\<close> of
  \<open>collectImpactedSections\<close> are \<open>depthWords\<close>.
\<close>

datatype error = Error (message: jsstring)

definition depthWords :: jsstring where
  "depthWords = [0x6DF1, 0x5EA6, 0x8D85, 0x9650]"

definition depthMessage :: "int \<Rightarrow> int \<Rightarrow> jsstring" where
  "depthMessage d m =
     lit ''AST '' @ [0x904D, 0x5386] @ depthWords @ lit '' ('' @ showInt d @ lit '' > '' @
     showInt m @ lit '')''"

definition timeoutMessage :: "int \<Rightarrow> jsstring" where
  "timeoutMessage ms =
     lit ''AST'' @ [0x89E3, 0x6790, 0x8D85, 0x65F6] @ lit '' (>'' @ showInt ms @ lit ''ms)''"

text \<open>\<open>error.message && error.message.includes(...)\<close> with the words of the depth limiter.\<close>

definition isDepthError :: "error \<Rightarrow> bool" where
  "isDepthError e \<longleftrightarrow> message e \<noteq> [] \<and> includesStr (message e) depthWords"

section \<open>DiffService: the unified-diff parser\<close>

subsection \<open>The hunk-header pattern\<close>

text \<open>
  \<open>line.match(/@@ -(\d+)(?:,(\d+))? \+(\d+)(?:,(\d+))? @@/)\<close>. The pattern is not anchored, so
  the match is searched from every position of the line, leftmost first. Each \<open>\d+\<close> is
  followed in the pattern by a non-digit (\<open>,\<close> or a space), so the only run of digits that can
  lead to a match is the maximal one, and an optional group that has matched \<open>,\d+\<close> cannot be
  given up for a match either (the next pattern character is a space, not a comma): the greedy
  matcher below finds a match exactly when the backtracking one does, with the same groups.
\<close>

definition matchLit :: "jsstring \<Rightarrow> jsstring \<Rightarrow> jsstring option" where
  "matchLit p s = (if startsWith s p then Some (drop (length p) s) else None)"

definition matchDigits :: "jsstring \<Rightarrow> (jsstring \<times> jsstring) option" where
  "matchDigits s =
     (let ds = takeWhile isDigit s
      in if ds = [] then None else Some (ds, dropWhile isDigit s))"

definition matchOptCount :: "jsstring \<Rightarrow> jsstring option \<times> jsstring" where
  "matchOptCount s =
     (case matchLit (lit '','') s of
        None \<Rightarrow> (None, s)
      | Some r \<Rightarrow> (case matchDigits r of None \<Rightarrow> (None, s) | Some (ds, r') \<Rightarrow> (Some ds, r')))"

type_synonym hunk_groups = "jsstring \<times> jsstring option \<times> jsstring \<times> jsstring option"

definition matchHunkAt :: "jsstring \<Rightarrow> hunk_groups option" where
  "matchHunkAt s =
     do {
       r1 \<leftarrow> matchLit (lit ''@@ -'') s;
       (g1, r2) \<leftarrow> matchDigits r1;
       (g2, r3) \<leftarrow> Some (matchOptCount r2);
       r4 \<leftarrow> matchLit (lit '' +'') r3;
       (g3, r5) \<leftarrow> matchDigits r4;
       (g4, r6) \<leftarrow> Some (matchOptCount r5);
       _ \<leftarrow> matchLit (lit '' @@'') r6;
       Some (g1, g2, g3, g4)
     }"

fun matchHunk :: "jsstring \<Rightarrow> hunk_groups option" where
  "matchHunk [] = matchHunkAt []"
| "matchHunk (c # cs) =
     (case matchHunkAt (c # cs) of Some g \<Rightarrow> Some g | None \<Rightarrow> matchHunk cs)"

subsection \<open>Line records\<close>

datatype line_type = Added | Removed | Context

text \<open>
  \<open>interface DiffLine\<close> of \<open>types/index.ts\<close>; the two optional numbers are options
  (\<open>None\<close> is a property that was not set).
\<close>

record DiffLine =
  lineNumber :: int
  content :: jsstring
  ltype :: line_type
  oldLineNumber :: "int option"
  newLineNumber :: "int option"

record ExtendedDiff =
  filePath :: jsstring
  oldPath :: "jsstring option"
  diffLines :: "DiffLine list"

text \<open>The local variables of \<open>parseDiff\<close>, with the array it pushes to.\<close>

record parse_state =
  out :: "DiffLine list"
  currentOldLine :: int
  currentNewLine :: int
  hunkOldStart :: int
  hunkOldCount :: int
  hunkNewStart :: int
  hunkNewCount :: int

definition initState :: parse_state where
  "initState = \<lparr>out = [], currentOldLine = 0, currentNewLine = 0,
     hunkOldStart = 0, hunkOldCount = 0, hunkNewStart = 0, hunkNewCount = 0\<rparr>"

text \<open>\<open>parseInt(g || '0', 10)\<close> on an optional group.\<close>

definition countOf :: "jsstring option \<Rightarrow> int" where
  "countOf g = (case g of None \<Rightarrow> parseInt10 (lit ''0'') | Some ds \<Rightarrow> parseInt10 ds)"

text \<open>The branch taken for a line that is a matching hunk header.\<close>

definition hunkStep :: "parse_state \<Rightarrow> jsstring \<Rightarrow> hunk_groups \<Rightarrow> parse_state" where
  "hunkStep st line g =
     (case g of (g1, g2, g3, g4) \<Rightarrow>
        let os = parseInt10 g1; oc = countOf g2; ns = parseInt10 g3; nc = countOf g4
        in st\<lparr>hunkOldStart := os, hunkOldCount := oc, hunkNewStart := ns, hunkNewCount := nc,
              currentOldLine := os, currentNewLine := ns,
              out := out st @ [\<lparr>lineNumber = ns, content = line, ltype = Context,
                                oldLineNumber = Some os, newLineNumber = Some ns\<rparr>]\<rparr>)"

text \<open>The \<open>if\<close> chain for every other line; \<open>currentNewLine || 1\<close> turns 0 into 1.\<close>

definition plainStep :: "parse_state \<Rightarrow> jsstring \<Rightarrow> parse_state" where
  "plainStep st line =
     (if startsWith line (lit ''+'') \<and> \<not> startsWith line (lit ''+++'') then
        st\<lparr>out := out st @ [\<lparr>lineNumber = currentNewLine st, content = line, ltype = Added,
                              oldLineNumber = None, newLineNumber = Some (currentNewLine st)\<rparr>],
           currentNewLine := currentNewLine st + 1\<rparr>
      else if startsWith line (lit ''-'') \<and> \<not> startsWith line (lit ''---'') then
        st\<lparr>out := out st @ [\<lparr>lineNumber = currentOldLine st, content = line, ltype = Removed,
                              oldLineNumber = Some (currentOldLine st), newLineNumber = None\<rparr>],
           currentOldLine := currentOldLine st + 1\<rparr>
      else if startsWith line (lit '' '') \<or> line = [] then
        st\<lparr>out := out st @ [\<lparr>lineNumber = currentNewLine st, content = line, ltype = Context,
                              oldLineNumber = Some (currentOldLine st),
                              newLineNumber = Some (currentNewLine st)\<rparr>],
           currentOldLine := currentOldLine st + 1,
           currentNewLine := currentNewLine st + 1\<rparr>
      else
        st\<lparr>out := out st @ [\<lparr>lineNumber = (if currentNewLine st = 0 then 1 else currentNewLine st),
                              content = line, ltype = Context,
                              oldLineNumber = None, newLineNumber = None\<rparr>]\<rparr>)"

text \<open>One iteration of the loop over the lines.\<close>

definition lineStep :: "parse_state \<Rightarrow> jsstring \<Rightarrow> parse_state" where
  "lineStep st line =
     (if startsWith line (lit ''@@'') then
        (case matchHunk line of Some g \<Rightarrow> hunkStep st line g | None \<Rightarrow> plainStep st line)
      else plainStep st line)"

fun parseLoop :: "parse_state \<Rightarrow> jsstring list \<Rightarrow> parse_state" where
  "parseLoop st [] = st"
| "parseLoop st (line # rest) = parseLoop (lineStep st line) rest"

definition parseDiff :: "jsstring \<Rightarrow> jsstring \<Rightarrow> jsstring option \<Rightarrow> ExtendedDiff" where
  "parseDiff diff path opath =
     \<lparr>filePath = path, oldPath = opath, diffLines = out (parseLoop initState (splitLines diff))\<rparr>"

text \<open>\<open>extractAddedLines\<close>.\<close>

definition extractAddedLines :: "DiffLine list \<Rightarrow> DiffLine list" where
  "extractAddedLines dls = filter (\<lambda>l. ltype l = Added) dls"

text \<open>
  The diff text of the parse example: six lines separated by line feeds (code unit 10),
  with no line feed after the last one.
\<close>

definition exampleDiff :: jsstring where
  "exampleDiff = lit ''@@ -1,3 +1,4 @@'' @ 10 # lit '' line1'' @ 10 # lit ''+new line'' @ 10 #
     lit '' line2'' @ 10 # lit ''-line3'' @ 10 # lit ''+line3 updated''"

text \<open>
  What a line of a diff is, by its text alone: a hunk header (it starts with \<open>@@\<close> and the
  header pattern matches in it), an added line (a leading plus, not three), a removed line
  (a leading minus, not three), a context line (empty, or a leading space), or any other line
  (among them \<open>+++\<close>, \<open>---\<close>, \<open>\ No newline at end of file\<close> and an \<open>@@\<close> line in which the
  pattern does not match).
\<close>

datatype line_kind = HeaderLine | AddedLine | RemovedLine | ContextLine | OtherLine

definition lineKind :: "jsstring \<Rightarrow> line_kind" where
  "lineKind line =
     (if startsWith line (lit ''@@'') \<and> matchHunk line \<noteq> None then HeaderLine
      else if startsWith line (lit ''+'') \<and> \<not> startsWith line (lit ''+++'') then AddedLine
      else if startsWith line (lit ''-'') \<and> \<not> startsWith line (lit ''---'') then RemovedLine
      else if startsWith line (lit '' '') \<or> line = [] then ContextLine
      else OtherLine)"

text \<open>The two start numbers that a hunk header declares.\<close>

definition hunkStarts :: "jsstring \<Rightarrow> (int \<times> int) option" where
  "hunkStarts line =
     (case matchHunk line of
        None \<Rightarrow> None
      | Some (g1, g2, g3, g4) \<Rightarrow> Some (parseInt10 g1, parseInt10 g3))"

text \<open>
  The shape of the record of a line, by the kind of the line. A header gives a context
  record that carries both numbers, the starts it declares. An added line gives an added
  record with the new number only, a removed line a removed record with the old number only,
  a context line a context record with both numbers. Any other line gives a context record
  with neither number. \<open>lineNumber\<close> is the new number where there is one, the old number of
  a removed record, and never 0 on the record of an other line.
\<close>

definition lineShape :: "DiffLine \<Rightarrow> bool" where
  "lineShape l =
     (case lineKind (content l) of
        HeaderLine \<Rightarrow>
          ltype l = Context \<and> newLineNumber l = Some (lineNumber l) \<and>
          (case hunkStarts (content l) of
             None \<Rightarrow> False
           | Some (os, ns) \<Rightarrow> oldLineNumber l = Some os \<and> newLineNumber l = Some ns)
      | AddedLine \<Rightarrow>
          ltype l = Added \<and> oldLineNumber l = None \<and> newLineNumber l = Some (lineNumber l)
      | RemovedLine \<Rightarrow>
          ltype l = Removed \<and> oldLineNumber l = Some (lineNumber l) \<and> newLineNumber l = None
      | ContextLine \<Rightarrow>
          ltype l = Context \<and> oldLineNumber l \<noteq> None \<and> newLineNumber l = Some (lineNumber l)
      | OtherLine \<Rightarrow>
          ltype l = Context \<and> oldLineNumber l = None \<and> newLineNumber l = None \<and>
          lineNumber l \<noteq> 0)"

section \<open>Configuration and blocks\<close>

text \<open>
  The parts of \<open>interface AppConfig\<close> that the services below read. The numbers come from
  \<open>parseInt\<close> of environment variables and are modelled as integers (a variable that is
  not a number would give \<open>NaN\<close>, which the model leaves out).
\<close>

record ai_config =
  maxTokens :: int

record token_config =
  maxInputTokens :: int
  reservedOutputTokens :: int

record ast_config =
  maxChars :: int
  maxLines :: int
  timeoutMs :: int
  maxDepth :: int

record AppConfig =
  ai :: ai_config
  token :: token_config
  ast :: ast_config

datatype block_type = Function | Class | Method | Unknown

text \<open>\<open>interface CodeBlock\<close>.\<close>

record CodeBlock =
  code :: jsstring
  startLine :: int
  endLine :: int
  btype :: block_type
  name :: "jsstring option"

text \<open>The defaults of the configuration file (no environment variable set).\<close>

definition defaultConfig :: AppConfig where
  "defaultConfig =
     \<lparr>ai = \<lparr>maxTokens = 4096\<rparr>,
      token = \<lparr>maxInputTokens = 8000, reservedOutputTokens = 2000\<rparr>,
      ast = \<lparr>maxChars = 10000, maxLines = 150, timeoutMs = 8000, maxDepth = 60\<rparr>\<rparr>"

section \<open>The libraries\<close>

text \<open>
  A node of the syntax tree of the parser, with what the service reads of it: its type,
  the lines of \<open>loc.start\<close> and \<open>loc.end\<close> when it has a location, \<open>id.name\<close>, \<open>key.name\<close>
  and \<open>key.value\<close> when present, and its child nodes in the order the traversal visits them.
\<close>

datatype node =
  Node (ntype: string) (loc: "(int \<times> int) option") (idName: "jsstring option")
    (keyName: "jsstring option") (keyValue: "jsstring option") (children: "node list")

text \<open>
  The parser, the traversal and the single-file-component compiler are libraries. What the
  services see of them is a parameter of the model:
  \<^item> \<open>parse\<close> is \<open>parser.parse(code, options)\<close>, with \<open>Inl\<close> when it throws;
  \<^item> \<open>crawl\<close> is what \<open>traverse\<close> does with a tree before it calls any visitor: it analyses
    the scopes of the whole program and throws on what it rejects there (a \<open>TypeError\<close> for a
    duplicate declaration, for one); \<open>None\<close> when it throws nothing;
  \<^item> \<open>sfcCompiler\<close> is what \<open>loadVueSfcCompiler()\<close> returns, \<open>None\<close> when the module cannot
    be loaded, and otherwise \<open>parseSFC(code, {filename})\<close> giving the descriptor.
\<close>

record parser_options =
  sourceType :: string
  plugins :: "string list"
  allowReturnOutsideFunction :: bool
  allowAwaitOutsideFunction :: bool
  errorRecovery :: bool

text \<open>
  A script block of a descriptor: its \<open>content\<close> and \<open>loc?.start?.line\<close>.
\<close>

record sfc_block =
  scontent :: jsstring
  slocLine :: "int option"

record sfc_descriptor =
  script :: "sfc_block option"
  scriptSetup :: "sfc_block option"

record env =
  parse :: "jsstring \<Rightarrow> parser_options \<Rightarrow> error + node"
  crawl :: "node \<Rightarrow> error option"
  sfcCompiler :: "(jsstring \<Rightarrow> jsstring \<Rightarrow> error + sfc_descriptor) option"

text \<open>
  The tokenizer library: \<open>encoding_for_model(model)\<close> gives the encoder of a model or throws
  (a model it does not know); \<open>encoder.encode(text)\<close> gives the tokens or throws (a text that
  holds a special token, for one).
\<close>

type_synonym encoder = "jsstring \<Rightarrow> error + nat list"

type_synonym tiktoken = "jsstring \<Rightarrow> error + encoder"

section \<open>TokenService\<close>

text \<open>
  \<open>getEncoder\<close>: the encoder of the model, or that of \<open>gpt-4\<close> when the library throws for
  the model (the throw is caught); a throw for \<open>gpt-4\<close> leaves the function. The cache of
  encoders changes no result and is left out. \<open>countTokens\<close> is the number of tokens; a
  throw of \<open>encode\<close> leaves it.
\<close>

definition getEncoder :: "tiktoken \<Rightarrow> jsstring \<Rightarrow> error + encoder" where
  "getEncoder lib model =
     (case lib model of
        Inr encoder \<Rightarrow> Inr encoder
      | Inl err \<Rightarrow> lib (lit ''gpt-4''))"

definition countTokens :: "tiktoken \<Rightarrow> jsstring \<Rightarrow> jsstring \<Rightarrow> error + int" where
  "countTokens lib text model =
     (case getEncoder lib model of
        Inl err \<Rightarrow> Inl err
      | Inr encoder \<Rightarrow>
          (case encoder text of
             Inl err \<Rightarrow> Inl err
           | Inr tokens \<Rightarrow> Inr (int (length tokens))))"

definition calculateAvailableTokens :: "AppConfig \<Rightarrow> int \<Rightarrow> int" where
  "calculateAvailableTokens config inputTokens =
     (let totalLimit = maxTokens (ai config);
          reserved = reservedOutputTokens (token config)
      in max 0 (totalLimit - inputTokens - reserved))"

text \<open>\<open>exceedsTokenLimit\<close> has no \<open>catch\<close>: a throw of \<open>countTokens\<close> leaves it.\<close>

definition exceedsTokenLimit ::
  "tiktoken \<Rightarrow> jsstring \<Rightarrow> AppConfig \<Rightarrow> jsstring \<Rightarrow> error + bool" where
  "exceedsTokenLimit lib text config model =
     (case countTokens lib text model of
        Inl err \<Rightarrow> Inl err
      | Inr tokens \<Rightarrow>
          let available = calculateAvailableTokens config tokens
          in Inr (available < 0))"

section \<open>AstService: source reconstruction and the fallback\<close>

text \<open>
  \<open>s.trim()\<close> removes the white space and line terminators of ECMAScript from both ends:
  TAB, LF, VT, FF, CR, space, NBSP, U+1680, U+2000 to U+200A, U+2028, U+2029, U+202F, U+205F,
  U+3000 and U+FEFF.
\<close>

definition isWhiteSpace :: "nat \<Rightarrow> bool" where
  "isWhiteSpace c \<longleftrightarrow>
     c \<in> set [9, 10, 11, 12, 13, 32, 160, 5760, 8232, 8233, 8239, 8287, 12288, 65279]
     \<or> (8192 \<le> c \<and> c \<le> 8202)"

definition trim :: "jsstring \<Rightarrow> jsstring" where
  "trim s = rev (dropWhile isWhiteSpace (rev (dropWhile isWhiteSpace s)))"

text \<open>The test that skips the header lines of a diff in \<open>buildFullCode\<close>.\<close>

definition isDiffHeader :: "jsstring \<Rightarrow> bool" where
  "isDiffHeader c \<longleftrightarrow>
     startsWith c (lit ''@@'') \<or> startsWith c (lit ''---'') \<or> startsWith c (lit ''+++'')"

text \<open>\<open>content.replace(/^[+\- ]/, '')\<close>: one leading plus, minus or space is removed.\<close>

fun stripMarker :: "jsstring \<Rightarrow> jsstring" where
  "stripMarker [] = []"
| "stripMarker (c # cs) = (if c = 43 \<or> c = 45 \<or> c = 32 then cs else c # cs)"

text \<open>The loop of \<open>buildFullCode\<close>, with the array \<open>lines\<close> it pushes to.\<close>

fun buildLoop :: "jsstring list \<Rightarrow> DiffLine list \<Rightarrow> jsstring list" where
  "buildLoop lines [] = lines"
| "buildLoop lines (d # ds) =
     (if isDiffHeader (content d) then buildLoop lines ds
      else if trim (stripMarker (content d)) = [] then buildLoop lines ds
      else buildLoop (lines @ [stripMarker (content d)]) ds)"

text \<open>\<open>buildFullCode\<close>; \<open>None\<close> is \<open>null\<close> (\<open>code || null\<close> on the empty string).\<close>

definition buildFullCode :: "DiffLine list \<Rightarrow> jsstring option" where
  "buildFullCode dls =
     (let code = trim (joinLines (buildLoop [] dls))
      in if code = [] then None else Some code)"

text \<open>The lines that \<open>buildFullCode\<close> keeps, as a filter and a map over the diff lines.\<close>

definition keptLines :: "DiffLine list \<Rightarrow> jsstring list" where
  "keptLines dls =
     map (\<lambda>d. stripMarker (content d))
       (filter (\<lambda>d. \<not> isDiffHeader (content d) \<and> trim (stripMarker (content d)) \<noteq> []) dls)"

text \<open>\<open>n || 1\<close> on an optional line number: a missing number and 0 give 1.\<close>

definition orOne :: "int option \<Rightarrow> int" where
  "orOne n = (case n of None \<Rightarrow> 1 | Some k \<Rightarrow> if k = 0 then 1 else k)"

text \<open>\<open>content.replace(/^\+/, '')\<close>.\<close>

fun stripPlus :: "jsstring \<Rightarrow> jsstring" where
  "stripPlus [] = []"
| "stripPlus (c # cs) = (if c = 43 then cs else c # cs)"

definition fallbackExtractBlocks :: "DiffLine list \<Rightarrow> AppConfig \<Rightarrow> CodeBlock list" where
  "fallbackExtractBlocks addedLines config =
     (if addedLines = [] then []
      else
        let firstLine = orOne (newLineNumber (hd addedLines));
            lastLine = orOne (newLineNumber (last addedLines));
            c = joinLines (map (\<lambda>l. stripPlus (content l)) addedLines)
        in if int (length c) > maxChars (ast config) then []
           else if lastLine - firstLine + 1 > maxLines (ast config) then []
           else [\<lparr>code = c, startLine = firstLine, endLine = lastLine,
                   btype = Unknown, name = None\<rparr>])"

section \<open>AstService: the minimality reduction\<close>

text \<open>
  An element of the arrays of \<open>collectImpactedSections\<close> and \<open>selectSmallestSections\<close>
  (the field \<open>end\<close> is \<open>endL\<close> here, \<open>type\<close> is \<open>stype\<close>).
\<close>

record Section =
  start :: int
  endL :: int
  stype :: block_type
  sname :: "jsstring option"
  addedLines :: "int list"

text \<open>
  The loop of \<open>selectSmallestSections\<close> over the sorted array, with \<open>selected\<close> and
  \<open>coveredLines\<close>. The sections are objects and \<open>selectedSection !== section\<close> compares
  their identities: each section travels with its index in the input array, which stands
  for the identity of the object in that slot.
\<close>

definition isContained :: "(nat \<times> Section) list \<Rightarrow> nat \<times> Section \<Rightarrow> bool" where
  "isContained selected section =
     list_ex (\<lambda>selectedSection.
        start (snd selectedSection) \<le> start (snd section) \<and>
        endL (snd selectedSection) \<ge> endL (snd section) \<and>
        fst selectedSection \<noteq> fst section) selected"

fun selectLoop ::
  "(nat \<times> Section) list \<Rightarrow> int set \<Rightarrow> (nat \<times> Section) list \<Rightarrow> (nat \<times> Section) list" where
  "selectLoop selected coveredLines [] = selected"
| "selectLoop selected coveredLines (section # rest) =
     (let hasNewLines = list_ex (\<lambda>line. line \<notin> coveredLines) (addedLines (snd section))
      in if hasNewLines then
           (if \<not> isContained selected section then
              selectLoop (selected @ [section])
                (coveredLines \<union> set (addedLines (snd section))) rest
            else selectLoop selected coveredLines rest)
         else selectLoop selected coveredLines rest)"

text \<open>
  \<open>selectSmallestSections\<close>. \<open>Array.prototype.sort\<close> is stable, as \<open>sort_key\<close> is. The
  argument \<open>addedLineNumbers\<close>, a \<open>Set\<close> kept as the list of its elements in insertion
  order, is not read by the source.
\<close>

definition selectSmallestSections :: "Section list \<Rightarrow> int list \<Rightarrow> Section list" where
  "selectSmallestSections sections addedLineNumbers =
     (if sections = [] then []
      else
        let sortedSections =
              sort_key (\<lambda>a. endL (snd a) - start (snd a)) (zip [0 ..< length sections] sections)
        in map snd (selectLoop [] {} sortedSections))"

text \<open>No block spans the lines of another one (the blocks are taken by position).\<close>

definition containmentFree :: "Section list \<Rightarrow> bool" where
  "containmentFree bs \<longleftrightarrow>
     \<not> list_ex (\<lambda>i. list_ex (\<lambda>j. i \<noteq> j \<and> start (bs ! i) \<le> start (bs ! j) \<and> endL (bs ! j) \<le> endL (bs ! i))
        [0 ..< length bs]) [0 ..< length bs]"

section \<open>AstService: the size governor\<close>

text \<open>
  \<open>xs.slice(a, b)\<close>: a negative index counts from the end, both indices are clamped to the
  array, and the result is empty when the second is not after the first.
\<close>

definition jsSlice :: "'a list \<Rightarrow> int \<Rightarrow> int \<Rightarrow> 'a list" where
  "jsSlice xs a b =
     (let n = int (length xs);
          from = (if a < 0 then max (n + a) 0 else min a n);
          to = (if b < 0 then max (n + b) 0 else min b n)
      in take (nat (to - from)) (drop (nat from) xs))"

text \<open>
  The marker after a truncated snippet: two line feeds, then a comment that reads
  "code too long, truncated (total length \<open>n\<close> characters)" in Chinese, given by its code units.
\<close>

definition truncationMarker :: "nat \<Rightarrow> jsstring" where
  "truncationMarker n =
     [10, 10] @ lit ''/* ... '' @ [0x4EE3, 0x7801, 0x8FC7, 0x957F, 0x5DF2, 0x622A, 0x65AD] @
     lit '' ('' @ [0x603B, 0x957F] @ showNat n @ [0x5B57, 0x7B26] @ lit '') */''"

text \<open>
  The marker after a window: "function is large (\<open>size\<close> lines), only the \<open>radius\<close> lines of
  context around the added lines are shown".
\<close>

definition windowMarker :: "int \<Rightarrow> int \<Rightarrow> jsstring" where
  "windowMarker sz radius =
     [10, 10] @ lit ''/* ... '' @ [0x51FD, 0x6570, 0x8F83, 0x5927] @ lit ''('' @ showInt sz @
     [0x884C] @ lit '')'' @ [0xFF0C, 0x53EA, 0x663E, 0x793A, 0x65B0, 0x589E, 0x884C, 0x5468, 0x56F4] @
     showInt radius @ [0x884C, 0x4E0A, 0x4E0B, 0x6587] @ lit '' */''"

text \<open>The two ellipsis lines of a window: "code before" and "code after".\<close>

definition beforeMarker :: jsstring where
  "beforeMarker = lit ''/* ... '' @ [0x524D, 0x9762, 0x7684, 0x4EE3, 0x7801] @ lit '' ... */''"

definition afterMarker :: jsstring where
  "afterMarker = lit ''/* ... '' @ [0x540E, 0x9762, 0x7684, 0x4EE3, 0x7801] @ lit '' ... */''"

text \<open>\<open>Math.min(...xs)\<close> and \<open>Math.max(...xs)\<close>, called on non-empty arrays only.\<close>

fun minOf :: "int list \<Rightarrow> int" where
  "minOf [] = 0"
| "minOf (x # xs) = fold min xs x"

fun maxOf :: "int list \<Rightarrow> int" where
  "maxOf [] = 0"
| "maxOf (x # xs) = fold max xs x"

definition extractContextAroundLines ::
  "jsstring list \<Rightarrow> int list \<Rightarrow> int \<Rightarrow> int \<Rightarrow> int \<Rightarrow> jsstring" where
  "extractContextAroundLines codeLines added startL endLn contextRadius =
     (if added = [] then joinLines (jsSlice codeLines (startL - 1) endLn)
      else
        let minAddedLine = minOf added;
            maxAddedLine = maxOf added;
            contextStart = max startL (minAddedLine - contextRadius);
            contextEnd = min endLn (maxAddedLine + contextRadius);
            context0 = jsSlice codeLines (contextStart - 1) contextEnd;
            context1 = (if contextStart > startL then beforeMarker # context0 else context0);
            context2 = (if contextEnd < endLn then context1 @ [afterMarker] else context1)
        in joinLines context2)"

text \<open>The slice of the source that a section spans, and \<open>limitSectionSize\<close>.\<close>

definition snippetOf :: "Section \<Rightarrow> jsstring \<Rightarrow> jsstring" where
  "snippetOf section fullCode =
     joinLines (jsSlice (splitLines fullCode) (start section - 1) (endL section))"

definition CONTEXT_RADIUS :: int where
  "CONTEXT_RADIUS = 8"

definition limitSectionSize :: "Section \<Rightarrow> jsstring \<Rightarrow> AppConfig \<Rightarrow> CodeBlock" where
  "limitSectionSize section fullCode config =
     (let codeLines = splitLines fullCode;
          snippet = snippetOf section fullCode;
          sz = endL section - start section + 1
      in if int (length snippet) > maxChars (ast config) then
           \<lparr>code = take (nat (maxChars (ast config))) snippet @ truncationMarker (length snippet),
            startLine = start section, endLine = endL section,
            btype = stype section, name = sname section\<rparr>
         else if sz > maxLines (ast config) then
           \<lparr>code = extractContextAroundLines codeLines (addedLines section)
                     (start section) (endL section) CONTEXT_RADIUS
                   @ windowMarker sz CONTEXT_RADIUS,
            startLine = start section, endLine = endL section,
            btype = stype section, name = sname section\<rparr>
         else
           \<lparr>code = snippet, startLine = start section, endLine = endL section,
            btype = stype section, name = sname section\<rparr>)"

section \<open>AstService: the traversal\<close>

text \<open>
  What the logger receives at warning level: the error and the number of sections so far.
  Messages at debug level are not part of the model.
\<close>

datatype log_entry = Warn error nat

text \<open>\<open>containsAddedLines\<close> of \<open>collectImpactedSections\<close>: the added lines within a range.\<close>

definition containsAddedLines :: "int list \<Rightarrow> int \<Rightarrow> int \<Rightarrow> int list" where
  "containsAddedLines addedLineNumbers s e =
     filter (\<lambda>lineNum. lineNum \<ge> s \<and> lineNum \<le> e) addedLineNumbers"

definition isTargetNode :: "node \<Rightarrow> bool" where
  "isTargetNode n \<longleftrightarrow>
     ntype n \<in> set [''FunctionDeclaration'', ''FunctionExpression'', ''ArrowFunctionExpression'',
       ''ClassDeclaration'', ''ClassMethod'', ''ClassProperty'']"

text \<open>
  A string property that is present and not empty (a truthy string), the name of the parent
  when the parent is a variable declarator with a named \<open>id\<close>, and \<open>getNodeName\<close>.
\<close>

fun truthy :: "jsstring option \<Rightarrow> bool" where
  "truthy None = False"
| "truthy (Some s) = (s \<noteq> [])"

definition declaratorName :: "node option \<Rightarrow> jsstring option" where
  "declaratorName parent =
     (case parent of
        None \<Rightarrow> None
      | Some p \<Rightarrow> if ntype p = ''VariableDeclarator'' \<and> truthy (idName p) then idName p else None)"

definition getNodeName :: "node \<Rightarrow> node option \<Rightarrow> jsstring option" where
  "getNodeName n parent =
     (if truthy (idName n) then idName n
      else case declaratorName parent of
        Some nm \<Rightarrow> Some nm
      | None \<Rightarrow>
          if truthy (keyName n) then keyName n
          else if truthy (keyValue n) then keyValue n
          else Some (lit ''anonymous''))"

definition getNodeType :: "string \<Rightarrow> block_type" where
  "getNodeType nodeType =
     (if nodeType = ''ClassDeclaration'' then Class
      else if nodeType = ''ClassMethod'' \<or> nodeType = ''ClassProperty'' then Method
      else Function)"

text \<open>
  The visitor's \<open>enter\<close> after the depth limiter: the sections array with the section of the
  node pushed when the node is a target with a location that holds an added line.
\<close>

definition enterNode :: "int list \<Rightarrow> node option \<Rightarrow> node \<Rightarrow> Section list \<Rightarrow> Section list" where
  "enterNode addedLineNumbers parent n secs =
     (if \<not> isTargetNode n then secs
      else case loc n of
        None \<Rightarrow> secs
      | Some (startL, endLn) \<Rightarrow>
          let relevantLines = containsAddedLines addedLineNumbers startL endLn
          in if relevantLines = [] then secs
             else secs @ [\<lparr>start = startL, endL = endLn, stype = getNodeType (ntype n),
                            sname = getNodeName n parent, addedLines = relevantLines\<rparr>])"

text \<open>
  The traversal, with the state shared by the callbacks: the sections array and the counter
  of the depth limiter. A node is entered (the limiter counts up and throws beyond
  \<open>maxDepth\<close>), its children are visited in order, and it is exited (the limiter counts
  down). A throw ends the traversal; what was pushed to the array stays there.
\<close>

record trav_state =
  sections :: "Section list"
  currentDepth :: int

fun visit :: "int \<Rightarrow> int list \<Rightarrow> node option \<Rightarrow> node \<Rightarrow> trav_state \<Rightarrow> error option \<times> trav_state"
  and visitAll :: "int \<Rightarrow> int list \<Rightarrow> node \<Rightarrow> node list \<Rightarrow> trav_state \<Rightarrow> error option \<times> trav_state"
where
  "visit maxD added parent (Node ty lc idn kn kv cs) st =
     (let n = Node ty lc idn kn kv cs;
          st1 = st\<lparr>currentDepth := currentDepth st + 1\<rparr>
      in if currentDepth st1 > maxD
         then (Some (Error (depthMessage (currentDepth st1) maxD)), st1)
         else
           let st2 = st1\<lparr>sections := enterNode added parent n (sections st1)\<rparr>
           in case visitAll maxD added n cs st2 of
                (Some e, st3) \<Rightarrow> (Some e, st3)
              | (None, st3) \<Rightarrow> (None, st3\<lparr>currentDepth := currentDepth st3 - 1\<rparr>))"
| "visitAll maxD added p [] st = (None, st)"
| "visitAll maxD added p (c # cs) st =
     (case visit maxD added (Some p) c st of
        (Some e, st1) \<Rightarrow> (Some e, st1)
      | (None, st1) \<Rightarrow> visitAll maxD added p cs st1)"

text \<open>
  \<open>traverse(ast, visitor)\<close>: the library first analyses the scopes of the tree, and a
  throw there ends the traversal before any visitor is called. Then it visits the nodes
  below the root it is given (the root, a \<open>File\<close>, is not entered itself). The tree is
  \<open>tree\<close> here, \<open>ast\<close> being the field of the configuration.
\<close>

definition traverse :: "env \<Rightarrow> int \<Rightarrow> int list \<Rightarrow> node \<Rightarrow> error option \<times> trav_state" where
  "traverse ev maxD added tree =
     (case crawl ev tree of
        Some err \<Rightarrow> (Some err, \<lparr>sections = [], currentDepth = 0\<rparr>)
      | None \<Rightarrow> visitAll maxD added tree (children tree) \<lparr>sections = [], currentDepth = 0\<rparr>)"

text \<open>
  \<open>collectImpactedSections\<close>: an error whose message holds the words of the depth limiter
  is caught and logged as a warning and the sections collected so far are returned; any
  other error is thrown again.
\<close>

definition collectImpactedSections ::
  "env \<Rightarrow> node \<Rightarrow> jsstring \<Rightarrow> int list \<Rightarrow> AppConfig
     \<Rightarrow> error + (Section list \<times> log_entry list)" where
  "collectImpactedSections ev tree fullCode addedLineNumbers config =
     (case traverse ev (maxDepth (ast config)) addedLineNumbers tree of
        (None, st) \<Rightarrow> Inr (sections st, [])
      | (Some e, st) \<Rightarrow>
          if isDepthError e then Inr (sections st, [Warn e (length (sections st))])
          else Inl e)"

text \<open>
  \<open>new Set(addedLines.map(line => line.newLineNumber).filter(Boolean))\<close>, as the list of
  its elements in insertion order: the numbers that are present and not 0, each once.
\<close>

fun setOfList :: "int list \<Rightarrow> int list \<Rightarrow> int list" where
  "setOfList acc [] = acc"
| "setOfList acc (x # xs) = (if x \<in> set acc then setOfList acc xs else setOfList (acc @ [x]) xs)"

definition addedLineNumbersOf :: "DiffLine list \<Rightarrow> int list" where
  "addedLineNumbersOf ls =
     setOfList [] (filter (\<lambda>n. n \<noteq> 0) (List.map_filter newLineNumber ls))"

definition extractMinimalBlocks ::
  "env \<Rightarrow> node \<Rightarrow> DiffLine list \<Rightarrow> jsstring \<Rightarrow> AppConfig
     \<Rightarrow> error + (CodeBlock list \<times> log_entry list)" where
  "extractMinimalBlocks ev tree addedLs fullCode config =
     (let addedLineNumbers = addedLineNumbersOf addedLs
      in case collectImpactedSections ev tree fullCode addedLineNumbers config of
           Inl e \<Rightarrow> Inl e
         | Inr (allSections, lg) \<Rightarrow>
             let selectedSections = selectSmallestSections allSections addedLineNumbers
             in Inr (map (\<lambda>section. limitSectionSize section fullCode config) selectedSections, lg))"

subsection \<open>The traversal as a list of visits\<close>

text \<open>
  The nodes below a root in the order the traversal enters them (a node before its
  children, the children from first to last), each with its depth and its parent: the
  children of the root have depth 1.
\<close>

type_synonym visit = "int \<times> node option \<times> node"

fun visits :: "int \<Rightarrow> node option \<Rightarrow> node \<Rightarrow> visit list"
  and visitsAll :: "int \<Rightarrow> node \<Rightarrow> node list \<Rightarrow> visit list"
where
  "visits d parent (Node ty lc idn kn kv cs) =
     (d, parent, Node ty lc idn kn kv cs) # visitsAll (d + 1) (Node ty lc idn kn kv cs) cs"
| "visitsAll d p [] = []"
| "visitsAll d p (c # cs) = visits d (Some p) c @ visitsAll d p cs"

text \<open>A visit within the depth ceiling, and the visits made before the first one beyond it.\<close>

definition within :: "int \<Rightarrow> visit \<Rightarrow> bool" where
  "within maxD v \<longleftrightarrow> fst v \<le> maxD"

definition visitsBefore :: "int \<Rightarrow> node \<Rightarrow> visit list" where
  "visitsBefore maxD tree = takeWhile (within maxD) (visitsAll 1 tree (children tree))"

definition depthExceeded :: "int \<Rightarrow> node \<Rightarrow> bool" where
  "depthExceeded maxD tree \<longleftrightarrow> \<not> list_all (within maxD) (visitsAll 1 tree (children tree))"

text \<open>The sections that entering a list of visits pushes, in order.\<close>

definition sectionsOf :: "int list \<Rightarrow> visit list \<Rightarrow> Section list" where
  "sectionsOf added vs = concat (map (\<lambda>v. enterNode added (fst (snd v)) (snd (snd v)) []) vs)"

text \<open>
  What the traversal returns for a state and the visits it is to make: the sections of the
  visits within the ceiling are pushed; if all visits are within the ceiling nothing is
  thrown and the counter is back where it was, otherwise the limiter's error is thrown at
  the first visit beyond the ceiling.
\<close>

definition travOK ::
  "int \<Rightarrow> int list \<Rightarrow> error option \<times> trav_state \<Rightarrow> trav_state \<Rightarrow> visit list \<Rightarrow> bool" where
  "travOK maxD added res st vs \<longleftrightarrow>
     sections (snd res) = sections st @ sectionsOf added (takeWhile (within maxD) vs) \<and>
     (if list_all (within maxD) vs
      then fst res = None \<and> currentDepth (snd res) = currentDepth st
      else fst res = Some (Error (depthMessage (fst (hd (dropWhile (within maxD) vs))) maxD)))"

text \<open>The depth of the first visit beyond the ceiling.\<close>

definition firstDeep :: "int \<Rightarrow> node \<Rightarrow> int" where
  "firstDeep maxD tree = fst (hd (dropWhile (within maxD) (visitsAll 1 tree (children tree))))"

section \<open>AstService: parsing and the entry point\<close>

text \<open>
  \<open>s.toLowerCase()\<close> on the letters A to Z and on the two other characters whose lower case
  holds an ASCII letter: the Kelvin sign U+212A gives \<open>k\<close>, and U+0130 gives \<open>i\<close> with a
  combining dot. The lower case of any other character is outside ASCII; it is left as it
  is, which the comparisons of the extension with ASCII words cannot tell.
\<close>

definition lowerUnit :: "nat \<Rightarrow> jsstring" where
  "lowerUnit c =
     (if 65 \<le> c \<and> c \<le> 90 then [c + 32]
      else if c = 0x212A then [107]
      else if c = 0x130 then [105, 0x307]
      else [c])"

definition toLowerCase :: "jsstring \<Rightarrow> jsstring" where
  "toLowerCase s = concat (map lowerUnit s)"

definition getFileExtension :: "jsstring \<Rightarrow> jsstring" where
  "getFileExtension path =
     (let parts = splitAcc 46 [] path
      in if length parts > 1 then toLowerCase (last parts) else [])"

definition isSupportedLanguage :: "jsstring \<Rightarrow> bool" where
  "isSupportedLanguage extension \<longleftrightarrow>
     extension \<in> set [lit ''js'', lit ''jsx'', lit ''ts'', lit ''tsx'', lit ''vue'']"

text \<open>
  \<open>parseCode\<close>: \<open>None\<close> is \<open>null\<close>. Both throws of the parser are caught inside; after the
  second one the function returns \<open>null\<close>.
\<close>

definition parseCode :: "env \<Rightarrow> jsstring \<Rightarrow> jsstring \<Rightarrow> node option" where
  "parseCode ev c extension =
     (let pl = [''typescript'', ''decorators-legacy'', ''classProperties'', ''objectRestSpread'',
                ''optionalChaining'', ''nullishCoalescingOperator'', ''topLevelAwait'',
                ''dynamicImport'']
               @ (if extension = lit ''tsx'' \<or> extension = lit ''jsx'' then [''jsx''] else [])
      in if c = [] \<or> trim c = [] then None
         else
           case parse ev c \<lparr>sourceType = ''module'', plugins = pl,
                  allowReturnOutsideFunction = True, allowAwaitOutsideFunction = True,
                  errorRecovery = True\<rparr> of
             Inr tree \<Rightarrow> Some tree
           | Inl err \<Rightarrow>
               let fallbackPlugins =
                     (if extension = lit ''tsx'' \<or> extension = lit ''jsx''
                      then [''typescript'', ''jsx''] else [''typescript''])
               in case parse ev c \<lparr>sourceType = ''unambiguous'', plugins = fallbackPlugins,
                         allowReturnOutsideFunction = True, allowAwaitOutsideFunction = True,
                         errorRecovery = True\<rparr> of
                    Inr tree \<Rightarrow> Some tree
                  | Inl fallbackError \<Rightarrow> None)"

text \<open>
  \<open>withTimeout\<close>: the promise's executor starts the timer and then calls \<open>fn\<close> to its end
  before anything else can run; it clears the timer and settles the promise with what \<open>fn\<close>
  returned or threw. The callback of the timer has no turn before that, so the promise is
  settled by \<open>fn\<close> alone, whatever \<open>timeoutMs\<close> is.
\<close>

definition withTimeout :: "(unit \<Rightarrow> error + 'a) \<Rightarrow> int \<Rightarrow> jsstring \<Rightarrow> error + 'a" where
  "withTimeout fn ms errorMessage =
     (case fn () of Inr result \<Rightarrow> Inr result | Inl err \<Rightarrow> Inl err)"

definition parseCodeWithTimeout ::
  "env \<Rightarrow> jsstring \<Rightarrow> jsstring \<Rightarrow> AppConfig \<Rightarrow> error + node option" where
  "parseCodeWithTimeout ev c extension config =
     withTimeout (\<lambda>_. Inr (parseCode ev c extension)) (timeoutMs (ast config))
       (timeoutMessage (timeoutMs (ast config)))"

subsection \<open>Single-file components\<close>

text \<open>An element of \<open>blockRanges\<close> in \<open>extractScriptBlocks\<close>.\<close>

record BlockRange =
  rstart :: int
  rend :: int
  rtype :: block_type
  rname :: "jsstring option"

text \<open>\<open>x || 'anonymous'\<close> on an optional string.\<close>

definition orAnonymous :: "jsstring option \<Rightarrow> jsstring option" where
  "orAnonymous x = (if truthy x then x else Some (lit ''anonymous''))"

text \<open>
  The five visitors of \<open>extractScriptBlocks\<close>: what a node pushes to \<open>blockRanges\<close> when its
  lines (inside the script) hold an added line, mapped back to the lines of the file.
\<close>

definition scriptEnter :: "int list \<Rightarrow> int \<Rightarrow> node \<Rightarrow> BlockRange list" where
  "scriptEnter scriptAddedLines scriptStartLine n =
     (case loc n of
        None \<Rightarrow> []
      | Some (s, e) \<Rightarrow>
          if containsAddedLines scriptAddedLines s e = [] then []
          else if ntype n = ''FunctionDeclaration'' then
            [\<lparr>rstart = s + scriptStartLine - 1, rend = e + scriptStartLine - 1,
              rtype = Function, rname = idName n\<rparr>]
          else if ntype n = ''FunctionExpression'' then
            [\<lparr>rstart = s + scriptStartLine - 1, rend = e + scriptStartLine - 1,
              rtype = Function, rname = orAnonymous (idName n)\<rparr>]
          else if ntype n = ''ArrowFunctionExpression'' then
            [\<lparr>rstart = s + scriptStartLine - 1, rend = e + scriptStartLine - 1,
              rtype = Function, rname = Some (lit ''arrow'')\<rparr>]
          else if ntype n = ''ClassDeclaration'' then
            [\<lparr>rstart = s + scriptStartLine - 1, rend = e + scriptStartLine - 1,
              rtype = Class, rname = idName n\<rparr>]
          else if ntype n = ''ClassMethod'' then
            [\<lparr>rstart = s + scriptStartLine - 1, rend = e + scriptStartLine - 1,
              rtype = Method, rname = orAnonymous (keyName n)\<rparr>]
          else [])"

fun scriptVisit :: "int list \<Rightarrow> int \<Rightarrow> node \<Rightarrow> BlockRange list"
  and scriptVisitAll :: "int list \<Rightarrow> int \<Rightarrow> node list \<Rightarrow> BlockRange list"
where
  "scriptVisit added ssl (Node ty lc idn kn kv cs) =
     scriptEnter added ssl (Node ty lc idn kn kv cs) @ scriptVisitAll added ssl cs"
| "scriptVisitAll added ssl [] = []"
| "scriptVisitAll added ssl (c # cs) = scriptVisit added ssl c @ scriptVisitAll added ssl cs"

text \<open>The loop over \<open>blockRanges\<close>: a range beyond a ceiling is skipped.\<close>

fun rangeBlocks :: "jsstring list \<Rightarrow> int \<Rightarrow> AppConfig \<Rightarrow> BlockRange list \<Rightarrow> CodeBlock list" where
  "rangeBlocks codeLines ssl config [] = []"
| "rangeBlocks codeLines ssl config (r # rs) =
     (let scriptStart = rstart r - ssl + 1;
          scriptEnd = rend r - ssl + 1;
          c = joinLines (jsSlice codeLines (scriptStart - 1) scriptEnd)
      in if int (length c) > maxChars (ast config) then rangeBlocks codeLines ssl config rs
         else if rend r - rstart r + 1 > maxLines (ast config) then rangeBlocks codeLines ssl config rs
         else \<lparr>code = c, startLine = rstart r, endLine = rend r, btype = rtype r, name = rname r\<rparr>
              # rangeBlocks codeLines ssl config rs)"

definition extractScriptBlocks ::
  "env \<Rightarrow> jsstring \<Rightarrow> int list \<Rightarrow> int \<Rightarrow> AppConfig \<Rightarrow> CodeBlock list" where
  "extractScriptBlocks ev scriptContent addedLineNumbers scriptStartLine config =
     (let scriptAddedLines =
            setOfList [] (map (\<lambda>lineNum. lineNum - scriptStartLine + 1)
              (filter (\<lambda>lineNum. lineNum \<ge> scriptStartLine) addedLineNumbers))
      in if scriptAddedLines = [] then []
         else
           case parse ev scriptContent
                  \<lparr>sourceType = ''module'',
                   plugins = [''typescript'', ''jsx'', ''decorators-legacy'', ''classProperties'',
                              ''optionalChaining'', ''nullishCoalescingOperator''],
                   allowReturnOutsideFunction = False, allowAwaitOutsideFunction = False,
                   errorRecovery = True\<rparr> of
             Inl err \<Rightarrow> []
           | Inr tree \<Rightarrow>
               (case crawl ev tree of
                  Some err \<Rightarrow> []
                | None \<Rightarrow>
                    rangeBlocks (splitLines scriptContent) scriptStartLine config
                      (scriptVisitAll scriptAddedLines scriptStartLine (children tree))))"

text \<open>The blocks of one script section of the descriptor, if it is there with content.\<close>

definition sectionBlocks ::
  "env \<Rightarrow> sfc_block option \<Rightarrow> int list \<Rightarrow> AppConfig \<Rightarrow> CodeBlock list" where
  "sectionBlocks ev blk addedLineNumbers config =
     (case blk of
        None \<Rightarrow> []
      | Some b \<Rightarrow>
          if scontent b = [] then []
          else extractScriptBlocks ev (scontent b) addedLineNumbers (orOne (slocLine b)) config)"

definition extractVueCodeBlocks ::
  "env \<Rightarrow> DiffLine list \<Rightarrow> jsstring \<Rightarrow> DiffLine list \<Rightarrow> AppConfig \<Rightarrow> CodeBlock list" where
  "extractVueCodeBlocks ev dls path addedLs config =
     (case sfcCompiler ev of
        None \<Rightarrow> fallbackExtractBlocks addedLs config
      | Some parseSFC \<Rightarrow>
          (case buildFullCode dls of
             None \<Rightarrow> fallbackExtractBlocks addedLs config
           | Some fullCode \<Rightarrow>
               (case parseSFC fullCode path of
                  Inl err \<Rightarrow> fallbackExtractBlocks addedLs config
                | Inr descriptor \<Rightarrow>
                    let addedLineNumbers = addedLineNumbersOf addedLs;
                        codeBlocks =
                          sectionBlocks ev (script descriptor) addedLineNumbers config
                          @ sectionBlocks ev (scriptSetup descriptor) addedLineNumbers config
                    in if length codeBlocks > 0 then codeBlocks
                       else fallbackExtractBlocks addedLs config)))"

text \<open>
  The body of the \<open>try\<close> of \<open>extractCodeBlocks\<close>, and \<open>extractCodeBlocks\<close>, whose
  \<open>catch\<close> turns any throw of the body into the fallback.
\<close>

definition extractBody ::
  "env \<Rightarrow> DiffLine list \<Rightarrow> jsstring \<Rightarrow> jsstring \<Rightarrow> DiffLine list \<Rightarrow> AppConfig
     \<Rightarrow> error + (CodeBlock list \<times> log_entry list)" where
  "extractBody ev dls path fileExtension addedLs config =
     (if fileExtension = lit ''vue'' then Inr (extractVueCodeBlocks ev dls path addedLs config, [])
      else
        case buildFullCode dls of
          None \<Rightarrow> Inr ([], [])
        | Some fullCode \<Rightarrow>
            (case parseCodeWithTimeout ev fullCode fileExtension config of
               Inl err \<Rightarrow> Inl err
             | Inr None \<Rightarrow> Inr ([], [])
             | Inr (Some tree) \<Rightarrow> extractMinimalBlocks ev tree addedLs fullCode config))"

definition extractCodeBlocks ::
  "env \<Rightarrow> DiffLine list \<Rightarrow> jsstring \<Rightarrow> AppConfig \<Rightarrow> error + (CodeBlock list \<times> log_entry list)" where
  "extractCodeBlocks ev dls path config =
     (let addedLs = filter (\<lambda>line. ltype line = Added) dls
      in if length addedLs = 0 then Inr ([], [])
         else
           let fileExtension = getFileExtension path
           in if \<not> isSupportedLanguage fileExtension then Inr ([], [])
              else
                case extractBody ev dls path fileExtension addedLs config of
                  Inr r \<Rightarrow> Inr r
                | Inl err \<Rightarrow> Inr (fallbackExtractBlocks addedLs config, []))"

section \<open>The outcomes of size governance\<close>











section \<open>Example inputs\<close>

text \<open>
  The tree of a three-line function, its source, the added line inside it, and a
  configuration whose depth ceiling is 2: the function is at depth 2, its children beyond.
\<close>

definition smallTree :: node where
  "smallTree =
     Node ''File'' (Some (1, 3)) None None None
       [Node ''Program'' (Some (1, 3)) None None None
          [Node ''FunctionDeclaration'' (Some (1, 3)) (Some (lit ''f'')) None None
             [Node ''Identifier'' (Some (1, 1)) None None None [],
              Node ''BlockStatement'' (Some (1, 3)) None None None
                [Node ''ReturnStatement'' (Some (2, 2)) None None None
                   [Node ''NumericLiteral'' (Some (2, 2)) None None None []]]]]]"

definition smallCode :: jsstring where
  "smallCode = lit ''function f() {'' @ 10 # lit ''return 1;'' @ 10 # lit ''}''"


definition returnLines :: "DiffLine list" where
  "returnLines = [\<lparr>lineNumber = 2, content = lit ''+return 1;'', ltype = Added,
        oldLineNumber = None, newLineNumber = Some 2\<rparr>]"

text \<open>
  Libraries whose parser throws on every input, and the records of a replacement whose new
  line \<open>const x = ;\<close> is not parsable.
\<close>

definition failingEnv :: env where
  "failingEnv = \<lparr>parse = (\<lambda>c opts. Inl (Error (lit ''Unexpected token''))),
     crawl = (\<lambda>tree. None), sfcCompiler = None\<rparr>"

definition brokenDiffLines :: "DiffLine list" where
  "brokenDiffLines =
     [\<lparr>lineNumber = 1, content = lit ''@@ -1 +1 @@'', ltype = Context,
        oldLineNumber = Some 1, newLineNumber = Some 1\<rparr>,
      \<lparr>lineNumber = 1, content = lit ''-const x = 1;'', ltype = Removed,
        oldLineNumber = Some 1, newLineNumber = None\<rparr>,
      \<lparr>lineNumber = 1, content = lit ''+const x = ;'', ltype = Added,
        oldLineNumber = None, newLineNumber = Some 1\<rparr>]"


definition okEnv :: env where
  "okEnv = \<lparr>parse = (\<lambda>c opts. Inr smallTree), crawl = (\<lambda>tree. None), sfcCompiler = None\<rparr>"

definition fnDiffLines :: "DiffLine list" where
  "fnDiffLines =
     [\<lparr>lineNumber = 1, content = lit ''@@ -1,2 +1,3 @@'', ltype = Context,
        oldLineNumber = Some 1, newLineNumber = Some 1\<rparr>,
      \<lparr>lineNumber = 1, content = lit '' function f() {'', ltype = Context,
        oldLineNumber = Some 1, newLineNumber = Some 1\<rparr>,
      \<lparr>lineNumber = 2, content = lit ''+return 1;'', ltype = Added,
        oldLineNumber = None, newLineNumber = Some 2\<rparr>,
      \<lparr>lineNumber = 3, content = lit '' }'', ltype = Context,
        oldLineNumber = Some 2, newLineNumber = Some 3\<rparr>]"

definition tsPath :: jsstring where
  "tsPath = lit ''a.ts''"


text \<open>
  The block of the whole function, a configuration with ceilings of 26 characters and 2
  lines, and the block that windowing leaves of the function.
\<close>

definition fullF :: CodeBlock where
  "fullF = \<lparr>code = smallCode, startLine = 1, endLine = 3, btype = Function,
     name = Some (lit ''f'')\<rparr>"



text \<open>The section of the function, with the added line it holds.\<close>

definition fSection :: Section where
  "fSection = \<lparr>start = 1, endL = 3, stype = Function, sname = Some (lit ''f''),
     addedLines = [2]\<rparr>"

text \<open>A configuration whose parse budget is 0 milliseconds.\<close>

definition zeroBudgetConfig :: AppConfig where
  "zeroBudgetConfig = defaultConfig\<lparr>ast := (ast defaultConfig)\<lparr>timeoutMs := 0\<rparr>\<rparr>"










text \<open>
  A tokenizer library that knows every model and whose encoders throw on a text that holds
  the special token \<open><|endoftext|>\<close>, and give one token for each code unit otherwise.
\<close>

definition specialToken :: jsstring where
  "specialToken = lit ''<|endoftext|>''"

definition specialLib :: tiktoken where
  "specialLib model =
     Inr (\<lambda>text. if includesStr text specialToken
                  then Inl (Error (lit ''The text contains a special token that is not allowed''))
                  else Inr text)"

text \<open>A text with no special token, and the name of a model.\<close>

definition plainText :: jsstring where
  "plainText = lit ''const x = 1;''"

definition gpt4 :: jsstring where
  "gpt4 = lit ''gpt-4''"

text \<open>The diff of one added line with no hunk header before it, and its record.\<close>

definition headerlessDiff :: jsstring where
  "headerlessDiff = lit ''+x''"

definition headerlessLine :: DiffLine where
  "headerlessLine = \<lparr>lineNumber = 0, content = lit ''+x'', ltype = Added,
     oldLineNumber = None, newLineNumber = Some 0\<rparr>"

section \<open>Properties of the diff parser\<close>

lemma lineShape_plainStep:
  assumes all: "list_all lineShape (out st)"
    and nh: "\<not> (startsWith line (lit ''@@'') \<and> matchHunk line \<noteq> None)"
  shows "list_all lineShape (out (plainStep st line))"
proof -
  let ?a = "startsWith line (lit ''+'') \<and> \<not> startsWith line (lit ''+++'')"
  let ?r = "startsWith line (lit ''-'') \<and> \<not> startsWith line (lit ''---'')"
  let ?c = "startsWith line (lit '' '') \<or> line = []"
  consider (a) ?a | (r) "\<not> ?a" ?r | (c) "\<not> ?a" "\<not> ?r" ?c | (o) "\<not> ?a" "\<not> ?r" "\<not> ?c"
    by blast
  then show ?thesis
  proof cases
    case a
    with nh have "lineKind line = AddedLine"
      unfolding lineKind_def by simp
    with a all show ?thesis
      unfolding plainStep_def by (simp add: lineShape_def)
  next
    case r
    with nh have "lineKind line = RemovedLine"
      unfolding lineKind_def by simp
    with r all show ?thesis
      unfolding plainStep_def by (simp add: lineShape_def)
  next
    case c
    with nh have "lineKind line = ContextLine"
      unfolding lineKind_def by simp
    with c all show ?thesis
      unfolding plainStep_def by (simp add: lineShape_def)
  next
    case o
    with nh have "lineKind line = OtherLine"
      unfolding lineKind_def by simp
    with o all show ?thesis
      unfolding plainStep_def by (simp add: lineShape_def)
  qed
qed

lemma lineShape_hunkStep:
  assumes "list_all lineShape (out st)"
    and "startsWith line (lit ''@@'')" and "matchHunk line = Some g"
  shows "list_all lineShape (out (hunkStep st line g))"
  using assms
  by (cases g) (simp add: hunkStep_def lineShape_def lineKind_def hunkStarts_def Let_def)

lemma lineShape_lineStep:
  assumes "list_all lineShape (out st)"
  shows "list_all lineShape (out (lineStep st line))"
proof (cases "startsWith line (lit ''@@'')")
  case True
  show ?thesis
  proof (cases "matchHunk line")
    case None
    with True assms show ?thesis
      by (simp add: lineStep_def lineShape_plainStep)
  next
    case (Some g)
    with True assms show ?thesis
      by (simp add: lineStep_def lineShape_hunkStep)
  qed
next
  case False
  with assms show ?thesis
    by (simp add: lineStep_def lineShape_plainStep)
qed

lemma lineShape_parseLoop:
  "list_all lineShape (out st) \<Longrightarrow> list_all lineShape (out (parseLoop st ls))"
  by (induction ls arbitrary: st) (simp_all add: lineShape_lineStep)

lemma lineShape_parseDiff: "list_all lineShape (diffLines (parseDiff d p op))"
  by (simp add: parseDiff_def lineShape_parseLoop initState_def)

lemma content_lineStep: "map content (out (lineStep st line)) = map content (out st) @ [line]"
  by (cases "matchHunk line")
     (auto simp: lineStep_def plainStep_def hunkStep_def Let_def split: prod.split)

lemma content_parseLoop: "map content (out (parseLoop st ls)) = map content (out st) @ ls"
  by (induction ls arbitrary: st) (simp_all add: content_lineStep)

lemma content_parseDiff: "map content (diffLines (parseDiff d p op)) = splitLines d"
  by (simp add: parseDiff_def content_parseLoop initState_def)

text \<open>What the shape of a record says of its numbers, by the type of the record.\<close>

lemma lineShape_by_type:
  assumes "lineShape l"
  shows "(ltype l = Added \<longrightarrow> newLineNumber l \<noteq> None \<and> oldLineNumber l = None) \<and>
         (ltype l = Removed \<longrightarrow> oldLineNumber l \<noteq> None \<and> newLineNumber l = None) \<and>
         (ltype l = Context \<longrightarrow>
            (oldLineNumber l \<noteq> None \<and> newLineNumber l \<noteq> None \<and>
               (lineKind (content l) = HeaderLine \<or> lineKind (content l) = ContextLine))
            \<or> (oldLineNumber l = None \<and> newLineNumber l = None \<and>
                lineKind (content l) = OtherLine))"
  using assms
  by (cases "lineKind (content l)")
     (auto simp: lineShape_def split: option.splits prod.splits)

text \<open>
  C3, as the code has it: the example diff gives six records, the hunk header being the
  first (a context record at the hunk's start numbers), and the record of \<open>+new line\<close> is the
  third, of type added with new-file line number 2.
\<close>

theorem parseDiff_example:
  "diffLines (parseDiff exampleDiff (lit ''test.ts'') None) =
     [\<lparr>lineNumber = 1, content = lit ''@@ -1,3 +1,4 @@'', ltype = Context,
        oldLineNumber = Some 1, newLineNumber = Some 1\<rparr>,
      \<lparr>lineNumber = 1, content = lit '' line1'', ltype = Context,
        oldLineNumber = Some 1, newLineNumber = Some 1\<rparr>,
      \<lparr>lineNumber = 2, content = lit ''+new line'', ltype = Added,
        oldLineNumber = None, newLineNumber = Some 2\<rparr>,
      \<lparr>lineNumber = 3, content = lit '' line2'', ltype = Context,
        oldLineNumber = Some 2, newLineNumber = Some 3\<rparr>,
      \<lparr>lineNumber = 3, content = lit ''-line3'', ltype = Removed,
        oldLineNumber = Some 3, newLineNumber = None\<rparr>,
      \<lparr>lineNumber = 4, content = lit ''+line3 updated'', ltype = Added,
        oldLineNumber = None, newLineNumber = Some 4\<rparr>]"
  by code_simp

text \<open>C3 as stated fails: the number of records of the example is not 5.\<close>

theorem parseDiff_example_length_not_5:
  "length (diffLines (parseDiff exampleDiff (lit ''test.ts'') None)) \<noteq> 5"
  by code_simp

text \<open>
  C4, as the code has it: every line of the diff gives one record, in order, with the line
  as its content, and every record has the shape of its line (\<open>lineShape\<close>). So an added
  record carries the new number and no old one and a removed record the old number and no
  new one; a context record carries both numbers when its line is a hunk header in which the
  pattern matches, an empty line or a line with a leading space, and neither number when it
  is any other line.
\<close>

theorem parseDiff_lineShape:
  assumes "l \<in> set (diffLines (parseDiff d p op))"
  shows "map content (diffLines (parseDiff d p op)) = splitLines d \<and> lineShape l \<and>
         (ltype l = Added \<longrightarrow> newLineNumber l \<noteq> None \<and> oldLineNumber l = None) \<and>
         (ltype l = Removed \<longrightarrow> oldLineNumber l \<noteq> None \<and> newLineNumber l = None) \<and>
         (ltype l = Context \<longrightarrow>
            (oldLineNumber l \<noteq> None \<and> newLineNumber l \<noteq> None \<and>
               (lineKind (content l) = HeaderLine \<or> lineKind (content l) = ContextLine))
            \<or> (oldLineNumber l = None \<and> newLineNumber l = None \<and>
                lineKind (content l) = OtherLine))"
proof -
  from assms lineShape_parseDiff [of d p op] have "lineShape l"
    by (simp add: list_all_iff)
  with lineShape_by_type [of l] content_parseDiff [of d p op] show ?thesis
    by blast
qed

theorem parseDiff_lineShape_witness:
  "\<lparr>lineNumber = 2, content = lit ''+new line'', ltype = Added,
     oldLineNumber = None, newLineNumber = Some 2\<rparr>
     \<in> set (diffLines (parseDiff exampleDiff (lit ''test.ts'') None)) \<and>
   lineShape \<lparr>lineNumber = 2, content = lit ''+new line'', ltype = Added,
     oldLineNumber = None, newLineNumber = Some 2\<rparr>"
proof -
  have m: "\<lparr>lineNumber = 2, content = lit ''+new line'', ltype = Added,
     oldLineNumber = None, newLineNumber = Some 2\<rparr>
     \<in> set (diffLines (parseDiff exampleDiff (lit ''test.ts'') None))"
    by code_simp
  from parseDiff_lineShape [OF m]
  have "lineShape \<lparr>lineNumber = 2, content = lit ''+new line'', ltype = Added,
     oldLineNumber = None, newLineNumber = Some 2\<rparr>"
    by (rule conjunct1 [OF conjunct2])
  with m show ?thesis by (rule conjI)
qed

text \<open>
  C4 as stated fails: the line \<open>\ No newline at end of file\<close> that ends many diffs gives a
  context record with neither line number.
\<close>

theorem parseDiff_context_without_numbers:
  "diffLines (parseDiff (lit ''@@ -1 +1 @@'' @ 10 # lit ''-a'' @ 10 # lit ''+b'' @ 10 #
      92 # lit '' No newline at end of file'') (lit ''test.ts'') None) =
     [\<lparr>lineNumber = 1, content = lit ''@@ -1 +1 @@'', ltype = Context,
        oldLineNumber = Some 1, newLineNumber = Some 1\<rparr>,
      \<lparr>lineNumber = 1, content = lit ''-a'', ltype = Removed,
        oldLineNumber = Some 1, newLineNumber = None\<rparr>,
      \<lparr>lineNumber = 1, content = lit ''+b'', ltype = Added,
        oldLineNumber = None, newLineNumber = Some 1\<rparr>,
      \<lparr>lineNumber = 2, content = 92 # lit '' No newline at end of file'', ltype = Context,
        oldLineNumber = None, newLineNumber = None\<rparr>]"
  by code_simp


section \<open>Properties of the token budget\<close>

text \<open>
  C10, as the code has it: the available-token count is floored at zero, so
  \<open>exceedsTokenLimit\<close> never returns true. It returns false whenever the tokenizer gives the
  tokens of the text, and when the tokenizer throws, the throw leaves it.
\<close>

theorem exceedsTokenLimit_never:
  "exceedsTokenLimit lib text config model =
     (case countTokens lib text model of Inl err \<Rightarrow> Inl err | Inr tokens \<Rightarrow> Inr False) \<and>
   exceedsTokenLimit lib text config model \<noteq> Inr True \<and>
   0 \<le> calculateAvailableTokens config n"
  by (simp add: exceedsTokenLimit_def calculateAvailableTokens_def Let_def split: sum.split)

lemma specialLib_plain_text: "countTokens specialLib plainText gpt4 = Inr 12"
  by (simp add: countTokens_def getEncoder_def specialLib_def specialToken_def startsWith_def
      plainText_def)

theorem exceedsTokenLimit_never_witness:
  "exceedsTokenLimit specialLib plainText defaultConfig gpt4 = Inr False"
  using exceedsTokenLimit_never [of specialLib plainText defaultConfig gpt4]
  by (simp add: specialLib_plain_text)

text \<open>
  C10 as stated fails: on a text that holds a special token the encoder throws, and
  \<open>exceedsTokenLimit\<close> does not return false: the error leaves it.
\<close>

theorem exceedsTokenLimit_throws:
  "exceedsTokenLimit specialLib specialToken defaultConfig gpt4 =
     Inl (Error (lit ''The text contains a special token that is not allowed''))"
  by (simp add: exceedsTokenLimit_def countTokens_def getEncoder_def specialLib_def
      specialToken_def startsWith_def)

section \<open>Properties of the source reconstruction\<close>

lemma trim_Nil_iff: "trim s = [] \<longleftrightarrow> (\<forall>c \<in> set s. isWhiteSpace c)"
proof
  assume e: "trim s = []"
  show "\<forall>c \<in> set s. isWhiteSpace c"
  proof (rule ccontr)
    assume "\<not> (\<forall>c \<in> set s. isWhiteSpace c)"
    then have ne: "dropWhile isWhiteSpace s \<noteq> []"
      by simp
    then have "\<not> isWhiteSpace (hd (dropWhile isWhiteSpace s))"
      by (rule hd_dropWhile)
    moreover have "hd (dropWhile isWhiteSpace s) \<in> set (rev (dropWhile isWhiteSpace s))"
      using ne by simp
    ultimately have "dropWhile isWhiteSpace (rev (dropWhile isWhiteSpace s)) \<noteq> []"
      by (metis dropWhile_eq_Nil_conv)
    with e show False by (simp add: trim_def)
  qed
next
  assume "\<forall>c \<in> set s. isWhiteSpace c"
  then show "trim s = []" by (auto simp: trim_def dest: set_dropWhileD)
qed

lemma set_joinLines: "l \<in> set ls \<Longrightarrow> set l \<subseteq> set (joinLines ls)"
  by (induction ls rule: joinLines.induct) auto

lemma trim_joinLines_nonempty:
  assumes "ls \<noteq> []" and "\<forall>l \<in> set ls. trim l \<noteq> []"
  shows "trim (joinLines ls) \<noteq> []"
proof -
  from assms obtain l where l: "l \<in> set ls" "trim l \<noteq> []"
    by (cases ls) auto
  then obtain c where "c \<in> set l" "\<not> isWhiteSpace c"
    by (auto simp: trim_Nil_iff)
  with l(1) set_joinLines [of l ls] show ?thesis
    by (auto simp: trim_Nil_iff)
qed

lemma buildLoop_keptLines: "buildLoop acc dls = acc @ keptLines dls"
  by (induction dls arbitrary: acc) (simp_all add: keptLines_def)

lemma keptLines_not_blank: "\<forall>l \<in> set (keptLines dls). trim l \<noteq> []"
  by (auto simp: keptLines_def)

text \<open>
  C5, as the code has it: the text is the line-feed join, trimmed at both ends, of the
  contents of all diff lines in their order, whatever their type (removed lines too), each
  without its leading plus, minus or space, leaving out the lines whose content starts with
  \<open>@@\<close>, \<open>---\<close> or \<open>+++\<close> and the lines that are blank after stripping; and the result is
  \<open>null\<close> exactly when no line is kept.
\<close>

theorem buildFullCode_keptLines:
  "buildFullCode dls =
     (if keptLines dls = [] then None else Some (trim (joinLines (keptLines dls))))"
proof (cases "keptLines dls = []")
  case True
  then show ?thesis
    by (simp add: buildFullCode_def buildLoop_keptLines trim_def)
next
  case False
  then have "trim (joinLines (keptLines dls)) \<noteq> []"
    using trim_joinLines_nonempty keptLines_not_blank by blast
  with False show ?thesis
    by (simp add: buildFullCode_def buildLoop_keptLines)
qed

lemma parseDiff_replacement:
  "diffLines (parseDiff
      (lit ''@@ -1 +1 @@'' @ 10 # lit ''-old();'' @ 10 # lit ''+new();'') (lit ''a.ts'') None) =
     [\<lparr>lineNumber = 1, content = lit ''@@ -1 +1 @@'', ltype = Context,
        oldLineNumber = Some 1, newLineNumber = Some 1\<rparr>,
      \<lparr>lineNumber = 1, content = lit ''-old();'', ltype = Removed,
        oldLineNumber = Some 1, newLineNumber = None\<rparr>,
      \<lparr>lineNumber = 1, content = lit ''+new();'', ltype = Added,
        oldLineNumber = None, newLineNumber = Some 1\<rparr>]"
  by code_simp

text \<open>
  C5 as stated fails: the text built from the records of a one-line replacement contains
  the removed line \<open>old();\<close> before the added line \<open>new();\<close>.
\<close>

theorem buildFullCode_keeps_removed:
  "buildFullCode (diffLines (parseDiff
      (lit ''@@ -1 +1 @@'' @ 10 # lit ''-old();'' @ 10 # lit ''+new();'') (lit ''a.ts'') None)) =
     Some (lit ''old();'' @ 10 # lit ''new();'')"
  unfolding parseDiff_replacement
  by (simp add: buildFullCode_def isDiffHeader_def startsWith_def trim_def isWhiteSpace_def)

section \<open>Properties of the fallback\<close>

text \<open>
  C7, as the code has it: for a non-empty list of added lines the fallback takes as start
  line the new-file line number of the first record, and 1 when that number is missing or
  0, and as end line the same of the last record. It returns no block when the joined code
  has more than \<open>maxChars\<close> characters or the span from the start line to the end line has
  more than \<open>maxLines\<close> lines, and otherwise exactly one block, of type unknown, from the
  start line to the end line, whose code is the contents without their leading plus, joined
  by line feeds.
\<close>

theorem fallbackExtractBlocks_single:
  assumes "ls \<noteq> []"
    and "a = (case newLineNumber (hd ls) of None \<Rightarrow> 1 | Some n \<Rightarrow> if n = 0 then 1 else n)"
    and "b = (case newLineNumber (last ls) of None \<Rightarrow> 1 | Some n \<Rightarrow> if n = 0 then 1 else n)"
  shows "fallbackExtractBlocks ls config =
     (if int (length (joinLines (map (\<lambda>l. stripPlus (content l)) ls))) > maxChars (ast config)
         \<or> b - a + 1 > maxLines (ast config)
      then []
      else [\<lparr>code = joinLines (map (\<lambda>l. stripPlus (content l)) ls),
              startLine = a, endLine = b, btype = Unknown, name = None\<rparr>])"
  using assms by (simp add: fallbackExtractBlocks_def orOne_def Let_def)

theorem fallbackExtractBlocks_single_witness:
  "[\<lparr>lineNumber = 2, content = lit ''+new line'', ltype = Added,
       oldLineNumber = None, newLineNumber = Some 2\<rparr>,
    \<lparr>lineNumber = 4, content = lit ''+line3 updated'', ltype = Added,
       oldLineNumber = None, newLineNumber = Some 4\<rparr>] \<noteq> [] \<and>
   fallbackExtractBlocks
     [\<lparr>lineNumber = 2, content = lit ''+new line'', ltype = Added,
        oldLineNumber = None, newLineNumber = Some 2\<rparr>,
      \<lparr>lineNumber = 4, content = lit ''+line3 updated'', ltype = Added,
        oldLineNumber = None, newLineNumber = Some 4\<rparr>] defaultConfig =
     [\<lparr>code = lit ''new line'' @ 10 # lit ''line3 updated'',
       startLine = 2, endLine = 4, btype = Unknown, name = None\<rparr>]"
proof -
  let ?ls = "[\<lparr>lineNumber = 2, content = lit ''+new line'', ltype = Added,
                 oldLineNumber = None, newLineNumber = Some 2\<rparr>,
              \<lparr>lineNumber = 4, content = lit ''+line3 updated'', ltype = Added,
                 oldLineNumber = None, newLineNumber = Some (4::int)\<rparr>]"
  have ne: "?ls \<noteq> []" by simp
  have f: "(2::int) = (case newLineNumber (hd ?ls) of None \<Rightarrow> 1
      | Some n \<Rightarrow> if n = 0 then 1 else n)"
    by simp
  have l: "(4::int) = (case newLineNumber (last ?ls) of None \<Rightarrow> 1
      | Some n \<Rightarrow> if n = 0 then 1 else n)"
    by simp
  have "fallbackExtractBlocks ?ls defaultConfig =
     [\<lparr>code = lit ''new line'' @ 10 # lit ''line3 updated'',
       startLine = 2, endLine = 4, btype = Unknown, name = None\<rparr>]"
    unfolding fallbackExtractBlocks_single [OF ne f l, of defaultConfig]
    by (simp add: defaultConfig_def)
  with ne show ?thesis by (rule conjI)
qed

text \<open>
  C7 as stated fails: an added line with no hunk header before it has the new-file line
  number 0, and the block of the fallback starts and ends at line 1.
\<close>

lemma parseDiff_headerless:
  "diffLines (parseDiff headerlessDiff tsPath None) = [headerlessLine]"
  unfolding headerlessDiff_def headerlessLine_def tsPath_def by code_simp

theorem fallbackExtractBlocks_line_0:
  "diffLines (parseDiff headerlessDiff tsPath None) = [headerlessLine] \<and>
   newLineNumber headerlessLine = Some 0 \<and>
   fallbackExtractBlocks [headerlessLine] defaultConfig =
     [\<lparr>code = lit ''x'', startLine = 1, endLine = 1, btype = Unknown, name = None\<rparr>]"
proof -
  have "newLineNumber headerlessLine = Some 0"
    by (simp add: headerlessLine_def)
  moreover have "fallbackExtractBlocks [headerlessLine] defaultConfig =
     [\<lparr>code = lit ''x'', startLine = 1, endLine = 1, btype = Unknown, name = None\<rparr>]"
    by (simp add: headerlessLine_def fallbackExtractBlocks_def orOne_def defaultConfig_def)
  ultimately show ?thesis
    using parseDiff_headerless by blast
qed

section \<open>Properties of the minimality reduction\<close>

lemma selectSmallestSections_example:
  "selectSmallestSections
     [\<lparr>start = 1, endL = 10, stype = Class, sname = Some (lit ''A''), addedLines = [3, 8]\<rparr>,
      \<lparr>start = 2, endL = 4, stype = Method, sname = Some (lit ''m''), addedLines = [3]\<rparr>]
     [3, 8] =
     [\<lparr>start = 2, endL = 4, stype = Method, sname = Some (lit ''m''), addedLines = [3]\<rparr>,
      \<lparr>start = 1, endL = 10, stype = Class, sname = Some (lit ''A''), addedLines = [3, 8]\<rparr>]"
  by (simp add: selectSmallestSections_def isContained_def upt_rec)

text \<open>
  C1 fails on the code. A class on lines 1 to 10 with added lines 3 and 8, and its method on
  lines 2 to 4 with added line 3, arrive in traversal order (class, then method). The method
  is accepted first; the class still covers line 8 and is not inside the method, so it is
  accepted too: the result holds a block and its ancestor.
\<close>

theorem selectSmallestSections_keeps_ancestor:
  "selectSmallestSections
     [\<lparr>start = 1, endL = 10, stype = Class, sname = Some (lit ''A''), addedLines = [3, 8]\<rparr>,
      \<lparr>start = 2, endL = 4, stype = Method, sname = Some (lit ''m''), addedLines = [3]\<rparr>]
     [3, 8] =
     [\<lparr>start = 2, endL = 4, stype = Method, sname = Some (lit ''m''), addedLines = [3]\<rparr>,
      \<lparr>start = 1, endL = 10, stype = Class, sname = Some (lit ''A''), addedLines = [3, 8]\<rparr>]
   \<and> \<not> containmentFree (selectSmallestSections
     [\<lparr>start = 1, endL = 10, stype = Class, sname = Some (lit ''A''), addedLines = [3, 8]\<rparr>,
      \<lparr>start = 2, endL = 4, stype = Method, sname = Some (lit ''m''), addedLines = [3]\<rparr>]
     [3, 8])"
  unfolding selectSmallestSections_example by (simp add: containmentFree_def upt_rec)

section \<open>Properties of the traversal\<close>

lemma enterNode_append: "enterNode added parent n secs = secs @ enterNode added parent n []"
  by (simp add: enterNode_def Let_def split: option.split prod.split)

lemma takeWhile_all: "list_all P xs \<Longrightarrow> takeWhile P (xs @ ys) = xs @ takeWhile P ys"
  by (simp add: list_all_iff)

lemma takeWhile_not_all: "\<not> list_all P xs \<Longrightarrow> takeWhile P (xs @ ys) = takeWhile P xs"
  by (auto simp: list_all_iff)

lemma dropWhile_not_all: "\<not> list_all P xs \<Longrightarrow> hd (dropWhile P (xs @ ys)) = hd (dropWhile P xs)"
proof -
  assume a: "\<not> list_all P xs"
  then obtain x where x: "x \<in> set xs" "\<not> P x" by (auto simp: list_all_iff)
  then have "dropWhile P (xs @ ys) = dropWhile P xs @ ys" by (rule dropWhile_append1)
  moreover from x have "dropWhile P xs \<noteq> []" by (auto simp: dropWhile_eq_Nil_conv)
  ultimately show ?thesis by simp
qed

lemma dropWhile_all: "list_all P xs \<Longrightarrow> dropWhile P (xs @ ys) = dropWhile P ys"
  by (simp add: list_all_iff)

lemma sectionsOf_Cons:
  "sectionsOf added (v # vs) = enterNode added (fst (snd v)) (snd (snd v)) [] @ sectionsOf added vs"
  by (simp add: sectionsOf_def)

lemma sectionsOf_append: "sectionsOf added (us @ vs) = sectionsOf added us @ sectionsOf added vs"
  by (simp add: sectionsOf_def)

lemma visit_deep:
  assumes "currentDepth st + 1 > maxD"
  shows "travOK maxD added (visit maxD added parent (Node ty lc idn kn kv cs) st) st
           (visits (currentDepth st + 1) parent (Node ty lc idn kn kv cs))"
  using assms by (simp add: travOK_def within_def sectionsOf_def)

lemma visit_shallow:
  assumes sh: "\<not> currentDepth st + 1 > maxD"
    and ih: "travOK maxD added
       (visitAll maxD added (Node ty lc idn kn kv cs) cs
          (st\<lparr>currentDepth := currentDepth st + 1,
              sections := enterNode added parent (Node ty lc idn kn kv cs) (sections st)\<rparr>))
       (st\<lparr>currentDepth := currentDepth st + 1,
           sections := enterNode added parent (Node ty lc idn kn kv cs) (sections st)\<rparr>)
       (visitsAll (currentDepth st + 1 + 1) (Node ty lc idn kn kv cs) cs)"
  shows "travOK maxD added (visit maxD added parent (Node ty lc idn kn kv cs) st) st
           (visits (currentDepth st + 1) parent (Node ty lc idn kn kv cs))"
proof -
  let ?n = "Node ty lc idn kn kv cs"
  let ?st2 = "st\<lparr>currentDepth := currentDepth st + 1,
                 sections := enterNode added parent ?n (sections st)\<rparr>"
  let ?vs = "visitsAll (currentDepth st + 1 + 1) ?n cs"
  obtain e st3 where r: "visitAll maxD added ?n cs ?st2 = (e, st3)"
    by (cases "visitAll maxD added ?n cs ?st2")
  have v: "visit maxD added parent ?n st =
       (case e of Some x \<Rightarrow> (Some x, st3)
        | None \<Rightarrow> (None, st3\<lparr>currentDepth := currentDepth st3 - 1\<rparr>))"
    using sh by (simp add: Let_def r)
  have w: "within maxD (currentDepth st + 1, parent, ?n)"
    using sh by (simp add: within_def)
  have "sections st3 = enterNode added parent ?n (sections st) @
       sectionsOf added (takeWhile (within maxD) ?vs)"
    using ih by (simp add: travOK_def r)
  then have s3: "sections st3 = sections st @ enterNode added parent ?n [] @
       sectionsOf added (takeWhile (within maxD) ?vs)"
    by (subst (asm) enterNode_append) simp
  show ?thesis
  proof (cases "list_all (within maxD) ?vs")
    case True
    with ih have "e = None" "currentDepth st3 = currentDepth st + 1"
      by (simp_all add: travOK_def r)
    with True w s3 show ?thesis
      by (simp add: travOK_def v sectionsOf_Cons del: visit.simps)
  next
    case False
    with ih have "e = Some (Error (depthMessage (fst (hd (dropWhile (within maxD) ?vs))) maxD))"
      by (simp add: travOK_def r)
    with False w s3 show ?thesis
      by (simp add: travOK_def v sectionsOf_Cons del: visit.simps)
  qed
qed

lemma visit_travOK:
  "travOK maxD added (visit maxD added parent n st) st (visits (currentDepth st + 1) parent n)"
  "travOK maxD added (visitAll maxD added p cs st) st (visitsAll (currentDepth st + 1) p cs)"
proof (induction maxD added parent n st and maxD added p cs st rule: visit_visitAll.induct)
  case (1 maxD added parent ty lc idn kn kv cs st)
  show ?case
  proof (cases "currentDepth st + 1 > maxD")
    case True
    then show ?thesis by (rule visit_deep)
  next
    case False
    show ?thesis
    proof (rule visit_shallow [OF False])
      from "1.IH" [OF refl refl] False
      show "travOK maxD added
       (visitAll maxD added (Node ty lc idn kn kv cs) cs
          (st\<lparr>currentDepth := currentDepth st + 1,
              sections := enterNode added parent (Node ty lc idn kn kv cs) (sections st)\<rparr>))
       (st\<lparr>currentDepth := currentDepth st + 1,
           sections := enterNode added parent (Node ty lc idn kn kv cs) (sections st)\<rparr>)
       (visitsAll (currentDepth st + 1 + 1) (Node ty lc idn kn kv cs) cs)"
        by simp
    qed
  qed
next
  case (2 maxD added p st)
  then show ?case by (simp add: travOK_def sectionsOf_def)
next
  case (3 maxD added p c cs st)
  obtain e st1 where r: "visit maxD added (Some p) c st = (e, st1)"
    by (cases "visit maxD added (Some p) c st")
  from "3.IH"(1) r
  have h1: "travOK maxD added (e, st1) st (visits (currentDepth st + 1) (Some p) c)"
    by simp
  show ?case
  proof (cases "list_all (within maxD) (visits (currentDepth st + 1) (Some p) c)")
    case True
    from True have tw: "takeWhile (within maxD) (visits (currentDepth st + 1) (Some p) c) =
        visits (currentDepth st + 1) (Some p) c"
      by (simp add: list_all_iff)
    from True h1 have e: "e = None" and cd: "currentDepth st1 = currentDepth st"
      and s1: "sections st1 =
        sections st @ sectionsOf added (visits (currentDepth st + 1) (Some p) c)"
      by (simp_all add: travOK_def tw)
    from "3.IH"(2) [OF r [unfolded e, symmetric]]
    have h2: "travOK maxD added (visitAll maxD added p cs st1) st1
        (visitsAll (currentDepth st1 + 1) p cs)"
      by simp
    from h2 True show ?thesis
      by (simp add: r e cd s1 travOK_def takeWhile_all dropWhile_all sectionsOf_append)
  next
    case False
    with h1 show ?thesis
      by (simp add: r travOK_def takeWhile_not_all dropWhile_not_all)
  qed
qed

lemma isDepthError_depthMessage: "isDepthError (Error (depthMessage d m))"
  by (simp add: isDepthError_def depthMessage_def depthWords_def startsWith_def)

text \<open>
  \<open>collectImpactedSections\<close>, case by case: the scope analysis of the library throws (an
  error with the words of the depth limiter in its message is logged and nothing is
  collected, any other error is thrown again), or the visits are made up to the first one
  beyond the ceiling.
\<close>

lemma collectImpactedSections_eq:
  "collectImpactedSections ev tree fullCode added config =
     (case crawl ev tree of
        Some err \<Rightarrow> if isDepthError err then Inr ([], [Warn err 0]) else Inl err
      | None \<Rightarrow>
          Inr (sectionsOf added (visitsBefore (maxDepth (ast config)) tree),
               if depthExceeded (maxDepth (ast config)) tree
               then [Warn (Error (depthMessage (firstDeep (maxDepth (ast config)) tree)
                                    (maxDepth (ast config))))
                       (length (sectionsOf added (visitsBefore (maxDepth (ast config)) tree)))]
               else []))"
proof (cases "crawl ev tree")
  case (Some err)
  then show ?thesis
    by (simp add: collectImpactedSections_def traverse_def)
next
  case None
  let ?m = "maxDepth (ast config)"
  let ?st0 = "\<lparr>sections = [], currentDepth = 0\<rparr>"
  obtain e st where r: "visitAll ?m added tree (children tree) ?st0 = (e, st)"
    by (cases "visitAll ?m added tree (children tree) ?st0")
  from visit_travOK(2) [of ?m added tree "children tree" ?st0] r
  have t: "travOK ?m added (e, st) ?st0 (visitsAll 1 tree (children tree))"
    by simp
  show ?thesis
  proof (cases "depthExceeded ?m tree")
    case True
    with t None show ?thesis
      by (simp add: collectImpactedSections_def traverse_def r travOK_def depthExceeded_def
          visitsBefore_def firstDeep_def isDepthError_depthMessage)
  next
    case False
    with t None show ?thesis
      by (simp add: collectImpactedSections_def traverse_def r travOK_def depthExceeded_def
          visitsBefore_def)
  qed
qed

section \<open>Properties of the entry point\<close>

text \<open>No throw leaves \<open>extractCodeBlocks\<close>.\<close>

lemma extractCodeBlocks_returns: "\<exists>r. extractCodeBlocks ev dls path config = Inr r"
  by (simp add: extractCodeBlocks_def Let_def split: sum.split)

text \<open>
  On the structural path (a supported file that is not a single-file component, a source
  that the parser accepts) the entry point returns what \<open>extractMinimalBlocks\<close> returns,
  and the fallback if that throws.
\<close>

lemma extractCodeBlocks_structural:
  assumes "filter (\<lambda>line. ltype line = Added) dls \<noteq> []"
    and "isSupportedLanguage (getFileExtension path)"
    and "getFileExtension path \<noteq> lit ''vue''"
    and "buildFullCode dls = Some fullCode"
    and "parseCode ev fullCode (getFileExtension path) = Some tree"
  shows "extractCodeBlocks ev dls path config =
     (case extractMinimalBlocks ev tree (filter (\<lambda>line. ltype line = Added) dls) fullCode config of
        Inr r \<Rightarrow> Inr r
      | Inl err \<Rightarrow> Inr (fallbackExtractBlocks (filter (\<lambda>line. ltype line = Added) dls) config, []))"
  using assms
  by (simp add: extractCodeBlocks_def extractBody_def parseCodeWithTimeout_def withTimeout_def
      Let_def)

text \<open>The example inputs, evaluated.\<close>

lemma example_inputs:
  "filter (\<lambda>line. ltype line = Added) fnDiffLines = returnLines"
  "returnLines \<noteq> []"
  "getFileExtension tsPath = [116, 115]"
  "buildFullCode fnDiffLines = Some smallCode"
  "parseCode okEnv smallCode [116, 115] = Some smallTree"
  "addedLineNumbersOf returnLines = [2]"
  "crawl okEnv smallTree = None"
proof -
  show "filter (\<lambda>line. ltype line = Added) fnDiffLines = returnLines"
    by (simp add: fnDiffLines_def returnLines_def)
  show "returnLines \<noteq> []"
    by (simp add: returnLines_def)
  show "getFileExtension tsPath = [116, 115]"
    by (simp add: tsPath_def getFileExtension_def toLowerCase_def lowerUnit_def)
  show "buildFullCode fnDiffLines = Some smallCode"
    by (simp add: fnDiffLines_def buildFullCode_def isDiffHeader_def startsWith_def trim_def
        isWhiteSpace_def smallCode_def)
  have "trim smallCode \<noteq> []" "smallCode \<noteq> []"
    by (simp_all add: smallCode_def trim_def isWhiteSpace_def)
  then show "parseCode okEnv smallCode [116, 115] = Some smallTree"
    by (simp add: parseCode_def okEnv_def)
  show "addedLineNumbersOf returnLines = [2]"
    by (simp add: returnLines_def addedLineNumbersOf_def)
  show "crawl okEnv smallTree = None"
    by (simp add: okEnv_def)
qed

lemma example_sections:
  "sectionsOf [2] (visitsBefore 2 smallTree) = [fSection]"
  "sectionsOf [2] (visitsBefore 60 smallTree) = [fSection]"
  "selectSmallestSections [fSection] [2] = [fSection]"
  "snippetOf fSection smallCode = smallCode"
  "length smallCode = 26"
  by (simp_all add: visitsBefore_def smallTree_def within_def sectionsOf_def enterNode_def
      isTargetNode_def containsAddedLines_def getNodeType_def getNodeName_def declaratorName_def
      fSection_def selectSmallestSections_def isContained_def
      snippetOf_def smallCode_def splitLines_def jsSlice_def)

lemma fSection_fields:
  "start fSection = 1" "endL fSection = 3" "stype fSection = Function"
  "sname fSection = Some [102]" "addedLines fSection = [2]"
  by (simp_all add: fSection_def)

lemma example_extraction:
  "extractCodeBlocks okEnv fnDiffLines tsPath config =
     (case extractMinimalBlocks okEnv smallTree returnLines smallCode config of
        Inr r \<Rightarrow> Inr r
      | Inl err \<Rightarrow> Inr (fallbackExtractBlocks returnLines config, []))"
proof -
  have a: "filter (\<lambda>line. ltype line = Added) fnDiffLines \<noteq> []"
    by (simp add: example_inputs)
  have x: "isSupportedLanguage (getFileExtension tsPath)"
    by (simp add: example_inputs isSupportedLanguage_def)
  have v: "getFileExtension tsPath \<noteq> lit ''vue''"
    by (simp add: example_inputs)
  have pc: "parseCode okEnv smallCode (getFileExtension tsPath) = Some smallTree"
    by (simp add: example_inputs)
  show ?thesis
    by (simp add: extractCodeBlocks_structural [OF a x v example_inputs(4) pc] example_inputs
        split: sum.split)
qed

lemma example_shallow_tree: "\<not> depthExceeded 60 smallTree"
  by (simp add: depthExceeded_def smallTree_def within_def)

lemma example_full_block:
  assumes "maxChars (ast config) = 10000" and "maxLines (ast config) = 150"
    and "maxDepth (ast config) = 60"
  shows "extractCodeBlocks okEnv fnDiffLines tsPath config = Inr ([fullF], [])"
proof -
  have e5: "limitSectionSize fSection smallCode config = fullF"
    using assms
    by (simp add: limitSectionSize_def Let_def example_sections fSection_fields fullF_def)
  show ?thesis
    using assms
    by (simp add: example_extraction extractMinimalBlocks_def collectImpactedSections_eq
        example_shallow_tree example_inputs example_sections e5)
qed

text \<open>
  When the scope analysis of the library throws (an error that is not the limiter's), no
  node is visited and nothing is logged: the throw leaves \<open>extractMinimalBlocks\<close> and the
  entry point returns the fallback.
\<close>

lemma scope_error_gives_fallback:
  assumes thrown: "crawl ev tree = Some err" and other: "\<not> isDepthError err"
    and added: "filter (\<lambda>line. ltype line = Added) dls \<noteq> []"
    and ext: "isSupportedLanguage (getFileExtension path)"
    and novue: "getFileExtension path \<noteq> lit ''vue''"
    and fc: "buildFullCode dls = Some fullCode"
    and pc: "parseCode ev fullCode (getFileExtension path) = Some tree"
  shows "extractCodeBlocks ev dls path config =
     Inr (fallbackExtractBlocks (filter (\<lambda>line. ltype line = Added) dls) config, [])"
  using thrown other
  by (simp add: extractCodeBlocks_structural [OF added ext novue fc pc] extractMinimalBlocks_def
      collectImpactedSections_eq)






text \<open>
  C2 on the code: for a supported file that is not a single-file component, when the parser
  throws on the reconstructed source whatever the options, \<open>parseCode\<close> returns \<open>null\<close> and
  \<open>extractCodeBlocks\<close> returns no block and no error: the fallback is not reached, although
  it would give a block (as the example shows).
\<close>

theorem parse_failure_gives_no_block:
  assumes added: "filter (\<lambda>line. ltype line = Added) dls \<noteq> []"
    and ext: "isSupportedLanguage (getFileExtension path)"
    and novue: "getFileExtension path \<noteq> lit ''vue''"
    and fc: "buildFullCode dls = Some fullCode"
    and fail: "\<And>opts. isl (parse ev fullCode opts)"
  shows "parseCode ev fullCode (getFileExtension path) = None \<and>
         extractCodeBlocks ev dls path config = Inr ([], [])"
proof -
  have p: "parseCode ev fullCode (getFileExtension path) = None"
    using fail by (simp add: parseCode_def Let_def sum.case_eq_if)
  then have "extractBody ev dls path (getFileExtension path)
      (filter (\<lambda>line. ltype line = Added) dls) config = Inr ([], [])"
    using novue fc by (simp add: extractBody_def parseCodeWithTimeout_def withTimeout_def)
  with added ext p show ?thesis
    by (simp add: extractCodeBlocks_def Let_def)
qed

theorem parse_failure_gives_no_block_witness:
  "extractCodeBlocks failingEnv brokenDiffLines (lit ''a.ts'') defaultConfig = Inr ([], []) \<and>
   fallbackExtractBlocks (filter (\<lambda>line. ltype line = Added) brokenDiffLines) defaultConfig =
     [\<lparr>code = lit ''const x = ;'', startLine = 1, endLine = 1, btype = Unknown, name = None\<rparr>]"
proof -
  have a: "filter (\<lambda>line. ltype line = Added) brokenDiffLines \<noteq> []"
    by (simp add: brokenDiffLines_def)
  have x: "getFileExtension (lit ''a.ts'') = lit ''ts''"
    by (simp add: getFileExtension_def toLowerCase_def lowerUnit_def)
  have e: "isSupportedLanguage (getFileExtension (lit ''a.ts''))"
    unfolding x by (simp add: isSupportedLanguage_def)
  have v: "getFileExtension (lit ''a.ts'') \<noteq> lit ''vue''"
    unfolding x by simp
  have fc: "buildFullCode brokenDiffLines = Some (lit ''const x = 1;'' @ 10 # lit ''const x = ;'')"
    by (simp add: brokenDiffLines_def buildFullCode_def isDiffHeader_def startsWith_def trim_def
        isWhiteSpace_def)
  have f: "\<And>opts. isl (parse failingEnv (lit ''const x = 1;'' @ 10 # lit ''const x = ;'') opts)"
    by (simp add: failingEnv_def)
  have fb: "fallbackExtractBlocks (filter (\<lambda>line. ltype line = Added) brokenDiffLines)
      defaultConfig =
     [\<lparr>code = lit ''const x = ;'', startLine = 1, endLine = 1, btype = Unknown, name = None\<rparr>]"
    by (simp add: brokenDiffLines_def fallbackExtractBlocks_def orOne_def defaultConfig_def)
  from parse_failure_gives_no_block [OF a e v fc f, of defaultConfig] fb
  show ?thesis by simp
qed


text \<open>
  C9 on the code: the promise of \<open>withTimeout\<close> is settled by the parse alone, whatever the
  budget is. \<open>parseCodeWithTimeout\<close> returns what \<open>parseCode\<close> returns and never throws the
  error of the timeout; with a budget of 0 milliseconds extraction still returns the block
  of the structural path for the example, not that of the fallback.
\<close>

theorem timeout_never_fires:
  "parseCodeWithTimeout ev c extension config = Inr (parseCode ev c extension) \<and>
   parseCodeWithTimeout ev c extension config \<noteq> Inl (Error (timeoutMessage (timeoutMs (ast config)))) \<and>
   timeoutMs (ast zeroBudgetConfig) = 0 \<and>
   extractCodeBlocks okEnv fnDiffLines tsPath zeroBudgetConfig = Inr ([fullF], [])"
proof -
  have "extractCodeBlocks okEnv fnDiffLines tsPath zeroBudgetConfig = Inr ([fullF], [])"
    by (rule example_full_block) (simp_all add: zeroBudgetConfig_def defaultConfig_def)
  moreover have "timeoutMs (ast zeroBudgetConfig) = 0"
    by (simp add: zeroBudgetConfig_def)
  ultimately show ?thesis
    by (simp add: parseCodeWithTimeout_def withTimeout_def)
qed

section \<open>Properties of the size governor\<close>































end
